theory Spec2Isabelle
  imports Main "HOL-Library.Word"
begin

section \<open>The peer slave of peer/src/peerslave.c\<close>

text \<open>
  A shallow embedding of \<^verbatim>\<open>main\<close> of \<^verbatim>\<open>peer/src/peerslave.c\<close>: the option scan
  (lines 111-246), the supervisor that forks the children (lines 288-352) and the slave
  loop (lines 532-928). Each definition names the lines it embeds. What the program does
  to the outside (mutexes, the engine, sockets, announcements) is recorded, in program
  order, in the \<open>trace\<close> field of the state; what the outside answers is read from an
  environment record, one per loop iteration.
\<close>

subsection \<open>Data model\<close>

text \<open>
  The structs are declared in \<^verbatim>\<open>peer.h\<close>, which is not among the sources. Their
  fields are the ones \<^verbatim>\<open>main\<close> reads and writes. The widths follow the uses in
  \<^verbatim>\<open>main\<close>: the ids are copied into \<^verbatim>\<open>unsigned int peerid, jobid\<close> and logged
  with \<^verbatim>\<open>%u\<close>, the requirements are logged with \<^verbatim>\<open>%lu\<close> (line 623); the
  specification calls the resource fields unsigned integers. The name, user and group
  fields are character arrays of one common length (\<^verbatim>\<open>STRLEN\<close>), so that the
  \<^verbatim>\<open>strncpy\<close> of lines 601-603 copies them whole.
\<close>

type_synonym byte = "8 word"
type_synonym uint32_t = "32 word"
type_synonym uint64_t = "64 word"

text \<open>A C \<^verbatim>\<open>int\<close> that takes part in arithmetic: 32 bits, read as signed by \<open>sint\<close>.\<close>

type_synonym c_int = "32 word"

datatype status_t = STATUS_ZOMBIE | STATUS_IDLE | STATUS_BUSY

record current_t =
  cur_hostid :: uint32_t
  cur_jobid :: uint32_t
  cur_name :: string
  cur_user :: string
  cur_group :: string
  cur_timreq :: uint64_t
  cur_memreq :: uint64_t
  cur_cpureq :: uint64_t

record hostdef_t =
  host_id :: uint32_t
  host_name :: string
  host_user :: string
  host_group :: string
  host_socket :: string
  host_port :: uint32_t
  host_status :: status_t
  host_timavail :: uint64_t
  host_memavail :: uint64_t
  host_cpuavail :: uint64_t
  host_current :: current_t

record jobdef_t =
  def_version :: uint32_t
  def_id :: uint32_t
  def_memreq :: uint64_t
  def_cpureq :: uint64_t
  def_timreq :: uint64_t
  def_argsize :: uint32_t
  def_optsize :: uint32_t

text \<open>One entry of the job queue: the submitter, the job definition and the two blobs.\<close>

record joblist_t =
  job_host :: hostdef_t
  job_job :: jobdef_t
  job_arg :: "byte list"
  job_opt :: "byte list"

record peerlist_t =
  peer_host :: hostdef_t
  peer_ipaddr :: string

text \<open>\<^verbatim>\<open>bzero(&(host->current), sizeof(current_t))\<close>\<close>

definition bzero_current :: current_t where
  "bzero_current =
     \<lparr>cur_hostid = 0, cur_jobid = 0, cur_name = [], cur_user = [], cur_group = [],
      cur_timreq = 0, cur_memreq = 0, cur_cpureq = 0\<rparr>"

text \<open>
  The values of the engine's matrix library that \<^verbatim>\<open>main\<close> builds and takes apart:
  cell arrays (a cell is empty until it is set), strings and double scalars. The
  scalars made here come from integers (\<^verbatim>\<open>mxCreateDoubleScalar(peerid)\<close>), which a
  double holds exactly, so a scalar is modelled by that integer. Everything else is
  opaque.
\<close>

datatype mxArray =
    MxCell "mxArray option list"
  | MxString string
  | MxDouble int
  | MxOpaque "byte list"

definition mxCreateCellMatrix :: "nat \<Rightarrow> nat \<Rightarrow> mxArray" where
  "mxCreateCellMatrix m n = MxCell (replicate (m * n) None)"

definition mxCreateString :: "string \<Rightarrow> mxArray" where
  "mxCreateString str = MxString str"

definition mxCreateDoubleScalar :: "int \<Rightarrow> mxArray" where
  "mxCreateDoubleScalar v = MxDouble v"

text \<open>\<^verbatim>\<open>mxGetM(a) * mxGetN(a)\<close>: the number of cells of a cell array.\<close>

fun mxGetMN :: "mxArray \<Rightarrow> nat" where
  "mxGetMN (MxCell cs) = length cs"
| "mxGetMN (MxString str) = length str"
| "mxGetMN (MxDouble v) = 1"
| "mxGetMN (MxOpaque bs) = length bs"

text \<open>A cell outside the array, or of something that is no cell array, reads as empty.\<close>

fun mxGetCell :: "mxArray \<Rightarrow> nat \<Rightarrow> mxArray option" where
  "mxGetCell (MxCell cs) i = (if i < length cs then cs ! i else None)"
| "mxGetCell a i = None"

fun mxSetCell :: "mxArray \<Rightarrow> nat \<Rightarrow> mxArray option \<Rightarrow> mxArray" where
  "mxSetCell (MxCell cs) i v = MxCell (cs[i := v])"
| "mxSetCell a i v = a"

subsection \<open>The allowance and the implicit options (lines 608-636)\<close>

text \<open>
  \<^verbatim>\<open>timallow = 3*job->job->timreq; if (host->timavail < timallow) timallow = host->timavail;\<close>
  with \<^verbatim>\<open>int timallow\<close>. The product is taken in the unsigned 64-bit type of
  \<^verbatim>\<open>timreq\<close> and cut to the \<^verbatim>\<open>int\<close>; the comparison converts the \<^verbatim>\<open>int\<close> back
  to the unsigned type (sign extension); the second assignment cuts again.
\<close>

definition timallow_of :: "uint64_t \<Rightarrow> uint64_t \<Rightarrow> c_int" where
  "timallow_of timreq timavail =
     (let timallow = (ucast (3 * timreq) :: c_int)
      in if timavail < (scast timallow :: uint64_t) then (ucast timavail :: c_int) else timallow)"

text \<open>
  Lines 626-636: a new cell array of \<open>n + 4\<close> cells, the \<open>n\<close> cells of the submitted
  options copied one by one, then the four cells of the watchdog.
\<close>

definition copy_cells :: "mxArray \<Rightarrow> nat \<Rightarrow> mxArray \<Rightarrow> mxArray" where
  "copy_cells previous n opts = foldl (\<lambda>a i. mxSetCell a i (mxGetCell previous i)) opts [0..<n]"

definition watchdog_options :: "mxArray \<Rightarrow> uint32_t \<Rightarrow> c_int \<Rightarrow> mxArray" where
  "watchdog_options previous peerid timallow =
     (let n = mxGetMN previous;
          opts = mxCreateCellMatrix 1 (n + 4);
          opts = copy_cells previous n opts;
          opts = mxSetCell opts (n + 0) (Some (mxCreateString ''masterid''));
          opts = mxSetCell opts (n + 1) (Some (mxCreateDoubleScalar (uint peerid)));
          opts = mxSetCell opts (n + 2) (Some (mxCreateString ''timallow''));
          opts = mxSetCell opts (n + 3) (Some (mxCreateDoubleScalar (sint timallow)))
      in opts)"

subsection \<open>Effects, environment and state of the slave loop\<close>

text \<open>
  A local variable of \<^verbatim>\<open>main\<close> that is declared without a value holds nothing
  defined until it is assigned.
\<close>

datatype 'a cvar = Indeterminate | Holds 'a

datatype mutex = mutexhost | mutexjoblist | mutexpeerlist

text \<open>What \<^verbatim>\<open>bufwrite\<close> is given to send: the host descriptor, the job definition, or bytes.\<close>

datatype frame = FrameHost hostdef_t | FrameJobdef jobdef_t | FrameBytes "byte list"

text \<open>
  The effects of \<^verbatim>\<open>main\<close>, one event per call that leaves \<^verbatim>\<open>main\<close>. A read carries
  what was read (\<open>None\<close>: fewer than \<^verbatim>\<open>sizeof(int)\<close> bytes came), a write whether all
  of the frame was written, an open the descriptor it returned, a fork the host id at
  the call and what \<^verbatim>\<open>fork\<close> returned. Locks that the helpers
  \<^verbatim>\<open>jobcount\<close>, \<^verbatim>\<open>clear_joblist\<close> and \<^verbatim>\<open>announce_once\<close> may take inside are not
  in the sources and are not recorded.
\<close>

datatype event =
    Lock mutex
  | Unlock mutex
  | Announce hostdef_t
  | EngOpen bool
  | EngClose
  | EngPutVariable string "mxArray cvar"
  | EngEvalString string
  | EngGetVariable string
  | OpenUds string int
  | OpenTcp string uint32_t int
  | BufRead int "int option"
  | BufWrite int frame bool
  | CloseConnection int
  | DestroyArg
  | DestroyOpt
  | FreeDef
  | ClearJoblist
  | ThreadSleep
  | Fork uint32_t int

datatype fault = ReadIndeterminate string

text \<open>
  The answers of the outside during one iteration of the loop: the clock at each
  \<^verbatim>\<open>time(NULL)\<close> (lines 535, 547, 571, 617, 918), the engine, the peer table as the
  discovery thread left it, the sockets, and the jobs the intake threads were offered.
  \<^verbatim>\<open>mxSerialize\<close>, \<^verbatim>\<open>mxDeserialize\<close> and the macro \<^verbatim>\<open>VERSION\<close> are declared
  outside the sources and are parameters here. The option list of a job is a cell
  array, so \<open>mxDeserialize_opt\<close> returns a value of the form \<open>MxCell cs\<close> for the jobs
  the claims are about. Clock readings are the values the code stores in its
  \<^verbatim>\<open>int\<close> variables; \<^verbatim>\<open>difftime\<close> of two of them is their exact difference.
\<close>

record env =
  now_idle :: int
  now_zombie :: int
  now_failed :: int
  now_start :: int
  now_finished :: int
  engClose_ok :: bool
  engOpen_ok :: bool
  mxDeserialize :: "byte list \<Rightarrow> mxArray"
  mxDeserialize_opt :: "byte list \<Rightarrow> mxArray"
  engPut_argin_ok :: bool
  engPut_options_ok :: bool
  engEval_ok :: bool
  engGet_argout :: "mxArray option"
  engGet_options :: "mxArray option"
  peerlist :: "peerlist_t list"
  open_uds_connection :: "string \<Rightarrow> int"
  open_tcp_connection :: "string \<Rightarrow> uint32_t \<Rightarrow> int"
  handshake :: "nat \<Rightarrow> int option"
  bufwrite_full :: "nat \<Rightarrow> bool"
  mxSerialize :: "mxArray \<Rightarrow> byte list option"
  malloc_ok :: bool
  VERSION :: uint32_t
  arrivals :: "joblist_t list"

text \<open>
  The variables of \<^verbatim>\<open>main\<close> that the loop uses, with the shared host descriptor and
  job queue. \<^verbatim>\<open>matlabStart\<close>, \<^verbatim>\<open>matlabFinished\<close>, \<^verbatim>\<open>timallow\<close> and
  \<^verbatim>\<open>success\<close> are assigned before each of their uses; \<open>jdef\<close> is the variable
  \<^verbatim>\<open>def\<close>.
\<close>

record slave =
  host :: hostdef_t
  joblist :: "joblist_t list"
  enginetimeout :: nat
  zombietimeout :: nat
  matlabRunning :: int
  matlabStart :: int
  matlabFinished :: int
  engineFailed :: int
  engineAborted :: int
  jobFailed :: int
  jobnum :: int
  timallow :: c_int
  jobid :: "uint32_t cvar"
  peerid :: "uint32_t cvar"
  argin :: "mxArray cvar"
  argout :: "mxArray cvar"
  options :: "mxArray cvar"
  server :: "int cvar"
  arg :: "byte list option cvar"
  opt :: "byte list option cvar"
  jdef :: "jobdef_t option"
  success :: bool
  trace :: "event list"

definition ENGINETIMEOUT :: nat where
  "ENGINETIMEOUT = 180"

definition ZOMBIETIMEOUT :: nat where
  "ZOMBIETIMEOUT = 900"

definition emit :: "event list \<Rightarrow> slave \<Rightarrow> slave" where
  "emit evs s = s\<lparr>trace := trace s @ evs\<rparr>"

text \<open>
  Modelled from the spec: \<^verbatim>\<open>announce_once\<close> is not in the sources. The specification:
  it "snapshots the host and publishes it", "a single immediate send".
\<close>

definition announce_once :: "slave \<Rightarrow> slave" where
  "announce_once s = emit [Announce (host s)] s"

text \<open>
  Modelled from the spec: \<^verbatim>\<open>jobcount\<close> and \<^verbatim>\<open>clear_joblist\<close> are not in the sources.
  The specification lists \<^verbatim>\<open>clear_joblist()\<close> among the operations of the registry and
  has the loop "clear the job queue"; the comment at line 905 says "clear the joblist".
\<close>

definition jobcount :: "slave \<Rightarrow> nat" where
  "jobcount s = length (joblist s)"

definition clear_joblist :: "slave \<Rightarrow> slave" where
  "clear_joblist s = (emit [ClearJoblist] s)\<lparr>joblist := []\<rparr>"

text \<open>
  Modelled from the spec: the intake threads (\<^verbatim>\<open>tcpserver\<close>, \<^verbatim>\<open>udsserver\<close>) are not
  in the sources. The specification: the server rejects a submitter "if current
  \<^verbatim>\<open>status != IDLE\<close>" and otherwise appends the new entry to the queue, which is
  "ordered FIFO by arrival". The jobs offered are those that passed the access lists.
\<close>

definition intake :: "joblist_t list \<Rightarrow> slave \<Rightarrow> slave" where
  "intake offered s =
     (if host_status (host s) = STATUS_IDLE then s\<lparr>joblist := joblist s @ offered\<rparr> else s)"

text \<open>
  The state in which the loop is entered (lines 84-89 and 522-529): the peer is an idle
  slave with no current job; \<^verbatim>\<open>def\<close> is \<^verbatim>\<open>NULL\<close>; \<^verbatim>\<open>server\<close>, \<^verbatim>\<open>arg\<close>,
  \<^verbatim>\<open>opt\<close>, \<^verbatim>\<open>argout\<close>, \<^verbatim>\<open>options\<close>, \<^verbatim>\<open>peerid\<close> and \<^verbatim>\<open>jobid\<close> have no value yet.
\<close>

definition initial_slave :: "hostdef_t \<Rightarrow> joblist_t list \<Rightarrow> nat \<Rightarrow> slave" where
  "initial_slave h q timeout =
     \<lparr>host = h\<lparr>host_status := STATUS_IDLE, host_current := bzero_current\<rparr>,
      joblist = q, enginetimeout = timeout, zombietimeout = ZOMBIETIMEOUT,
      matlabRunning = 0, matlabStart = 0, matlabFinished = 0, engineFailed = 0,
      engineAborted = 0, jobFailed = 0, jobnum = 0, timallow = 0,
      jobid = Indeterminate, peerid = Indeterminate, argin = Indeterminate,
      argout = Indeterminate, options = Indeterminate, server = Indeterminate,
      arg = Indeterminate, opt = Indeterminate, jdef = None, success = False, trace = []\<rparr>"

subsection \<open>The phases of one iteration\<close>

text \<open>
  Lines 549-556, 574-581 and 909-916: under \<^verbatim>\<open>mutexhost\<close> set the status and zero
  the current job, then announce.
\<close>

definition switch_status :: "status_t \<Rightarrow> slave \<Rightarrow> slave" where
  "switch_status st s =
     (let s = emit [Lock mutexhost] s;
          s = s\<lparr>host := (host s)\<lparr>host_status := st, host_current := bzero_current\<rparr>\<rparr>;
          s = emit [Unlock mutexhost] s
      in announce_once s)"

text \<open>Lines 535-544: the engine is closed after being idle; either way it no longer runs.\<close>

definition engine_idle_check :: "env \<Rightarrow> slave \<Rightarrow> slave" where
  "engine_idle_check e s =
     (if matlabRunning s \<noteq> 0 \<and> now_idle e - matlabFinished s > int (enginetimeout s)
      then (emit [EngClose] s)\<lparr>matlabRunning := 0\<rparr>
      else s)"

text \<open>Lines 547-559: the test, and the switch back to idle that ends the iteration.\<close>

definition zombie_timed_out :: "env \<Rightarrow> slave \<Rightarrow> bool" where
  "zombie_timed_out e s =
     (engineFailed s \<noteq> 0 \<and> now_zombie e - engineFailed s > int (zombietimeout s))"

definition leave_zombie :: "slave \<Rightarrow> slave" where
  "leave_zombie s = (switch_status STATUS_IDLE s)\<lparr>engineFailed := 0\<rparr>"

text \<open>Lines 564-587, entered when \<^verbatim>\<open>matlabRunning==0\<close>.\<close>

definition start_engine :: "env \<Rightarrow> slave \<Rightarrow> slave" where
  "start_engine e s =
     (if \<not> engOpen_ok e
      then (let s = emit [EngOpen False] s;
                s = s\<lparr>engineFailed := now_failed e, matlabRunning := 0\<rparr>
            in switch_status STATUS_ZOMBIE s)
      else (emit [EngOpen True] s)\<lparr>engineFailed := 0, matlabRunning := 1\<rparr>)"

text \<open>
  Lines 589-636: take the first job, become busy, compute the allowance, deserialise
  the arguments and build the options that go to the engine.
\<close>

definition pickup_job :: "env \<Rightarrow> slave \<Rightarrow> slave" where
  "pickup_job e s =
     (let s = emit [Lock mutexjoblist] s;
          job = hd (joblist s);
          s = emit [Lock mutexhost] s;
          s = s\<lparr>host := (host s)\<lparr>host_status := STATUS_BUSY,
                 host_current :=
                   \<lparr>cur_hostid = host_id (job_host job), cur_jobid = def_id (job_job job),
                    cur_name = host_name (job_host job), cur_user = host_user (job_host job),
                    cur_group = host_group (job_host job),
                    cur_timreq = def_timreq (job_job job), cur_memreq = def_memreq (job_job job),
                    cur_cpureq = def_cpureq (job_job job)\<rparr>\<rparr>\<rparr>;
          s = s\<lparr>timallow := timallow_of (def_timreq (job_job job)) (host_timavail (host s))\<rparr>;
          s = emit [Unlock mutexhost] s;
          s = announce_once s;
          s = s\<lparr>matlabStart := now_start e\<rparr>;
          s = s\<lparr>argin := Holds (mxDeserialize e (take (unat (def_argsize (job_job job))) (job_arg job)))\<rparr>;
          previous = mxDeserialize_opt e (take (unat (def_optsize (job_job job))) (job_opt job));
          s = s\<lparr>jobid := Holds (def_id (job_job job)), peerid := Holds (host_id (job_host job)),
                 jobnum := jobnum s + 1\<rparr>;
          s = emit [Unlock mutexjoblist] s
      in s\<lparr>options := Holds (watchdog_options previous (host_id (job_host job)) (timallow s))\<rparr>)"

text \<open>
  Lines 638-672: the five engine steps, each tried only while no earlier one failed.
  The arrays destroyed at lines 651-652 hold nothing defined afterwards, and neither
  does a variable that was assigned the \<^verbatim>\<open>NULL\<close> of a failed
  \<^verbatim>\<open>engGetVariable\<close>; both are assigned again before they are read.
\<close>

definition put_argin :: "env \<Rightarrow> slave \<Rightarrow> slave" where
  "put_argin e s =
     (if jobFailed s = 0
      then (if \<not> engPut_argin_ok e
            then (emit [EngPutVariable ''argin'' (argin s)] s)\<lparr>jobFailed := 1\<rparr>
            else emit [EngPutVariable ''argin'' (argin s)] s)
      else s)"

definition put_options :: "env \<Rightarrow> slave \<Rightarrow> slave" where
  "put_options e s =
     (if jobFailed s = 0
      then (if \<not> engPut_options_ok e
            then (emit [EngPutVariable ''options'' (options s)] s)\<lparr>jobFailed := 2\<rparr>
            else emit [EngPutVariable ''options'' (options s)] s)
      else s)"

definition destroy_inputs :: "slave \<Rightarrow> slave" where
  "destroy_inputs s = s\<lparr>argin := Indeterminate, options := Indeterminate\<rparr>"

definition eval_job :: "env \<Rightarrow> slave \<Rightarrow> slave" where
  "eval_job e s =
     (if jobFailed s = 0
      then (if \<not> engEval_ok e
            then (emit [EngEvalString ''[argout, options] = peerexec(argin, options);''] s)
                   \<lparr>jobFailed := 3, engineAborted := 1\<rparr>
            else emit [EngEvalString ''[argout, options] = peerexec(argin, options);''] s)
      else s)"

definition get_argout :: "env \<Rightarrow> slave \<Rightarrow> slave" where
  "get_argout e s =
     (if jobFailed s = 0
      then (case engGet_argout e of
              None \<Rightarrow> (emit [EngGetVariable ''argout''] s)
                        \<lparr>argout := Indeterminate, jobFailed := 4, engineAborted := 1\<rparr>
            | Some a \<Rightarrow> (emit [EngGetVariable ''argout''] s)\<lparr>argout := Holds a\<rparr>)
      else s)"

definition get_options :: "env \<Rightarrow> slave \<Rightarrow> slave" where
  "get_options e s =
     (if jobFailed s = 0
      then (case engGet_options e of
              None \<Rightarrow> (emit [EngGetVariable ''options''] s)
                        \<lparr>options := Indeterminate, jobFailed := 5, engineAborted := 1\<rparr>
            | Some a \<Rightarrow> (emit [EngGetVariable ''options''] s)\<lparr>options := Holds a\<rparr>)
      else s)"

definition engine_steps :: "env \<Rightarrow> slave \<Rightarrow> slave" where
  "engine_steps e s =
     (let s = s\<lparr>jobFailed := 0\<rparr>;
          s = put_argin e s;
          s = put_options e s;
          s = destroy_inputs s;
          s = eval_job e s;
          s = get_argout e s;
          s = get_options e s
      in s)"

text \<open>
  Lines 676-704, entered when \<^verbatim>\<open>engineFailed || jobFailed\<close>: the ids are read again
  from the first job of the queue (the rest of the block writes to the log).
\<close>

definition report_failure :: "slave \<Rightarrow> slave" where
  "report_failure s =
     (let s = emit [Lock mutexjoblist] s;
          job = hd (joblist s);
          s = s\<lparr>jobid := Holds (def_id (job_job job)), peerid := Holds (host_id (job_host job))\<rparr>
      in emit [Unlock mutexjoblist] s)"

text \<open>Lines 706-732: the results that stand in for a job that could not be executed.\<close>

definition lasterr_options :: "string \<Rightarrow> mxArray" where
  "lasterr_options msg =
     (let opts = mxCreateCellMatrix 1 2;
          opts = mxSetCell opts 0 (Some (mxCreateString ''lasterr''));
          opts = mxSetCell opts 1 (Some (mxCreateString msg))
      in opts)"

definition synthesize_error :: "slave \<Rightarrow> slave" where
  "synthesize_error s =
     (if engineFailed s \<noteq> 0
      then s\<lparr>argout := Holds (mxCreateCellMatrix 1 1),
             options := Holds (lasterr_options ''could not start the matlab engine'')\<rparr>
      else if jobFailed s \<noteq> 0
      then s\<lparr>argout := Holds (mxCreateCellMatrix 1 1),
             options := Holds (lasterr_options
               (if jobFailed s = 1 then ''failed to execute the job (argin)''
                else if jobFailed s = 2 then ''failed to execute the job (optin)''
                else if jobFailed s = 3 then ''failed to execute the job (eval)''
                else if jobFailed s = 4 then ''failed to execute the job (argout)''
                else if jobFailed s = 5 then ''failed to execute the job (optout)''
                else ''failed to execute the job''))\<rparr>
      else s)"

subsection \<open>Sending the results back (lines 738-901)\<close>

text \<open>The search of lines 741-748: the first peer with the id.\<close>

fun find_peer :: "peerlist_t list \<Rightarrow> uint32_t \<Rightarrow> peerlist_t option" where
  "find_peer [] pid = None"
| "find_peer (p # ps) pid =
     (if host_id (peer_host p) = pid then Some p else find_peer ps pid)"

text \<open>
  The label \<^verbatim>\<open>cleanup\<close> (lines 885-901). \<^verbatim>\<open>FREE\<close> is a macro of \<^verbatim>\<open>peer.h\<close>; it
  frees a pointer that is not \<^verbatim>\<open>NULL\<close> and sets it to \<^verbatim>\<open>NULL\<close>, as lines 891-899
  do by hand for \<^verbatim>\<open>arg\<close> and \<^verbatim>\<open>opt\<close>. Testing a variable that was never assigned
  is a fault.
\<close>

definition cleanup :: "slave \<Rightarrow> (fault \<times> slave) + slave" where
  "cleanup s =
     (case server s of
        Indeterminate \<Rightarrow> Inl (ReadIndeterminate ''server'', s)
      | Holds fd \<Rightarrow>
          (let s = (if fd > 0 then (emit [CloseConnection fd] s)\<lparr>server := Holds 0\<rparr> else s)
           in case arg s of
                Indeterminate \<Rightarrow> Inl (ReadIndeterminate ''arg'', s)
              | Holds a \<Rightarrow>
                  (let s = (if a \<noteq> None then (emit [DestroyArg] s)\<lparr>arg := Holds None\<rparr> else s)
                   in case opt s of
                        Indeterminate \<Rightarrow> Inl (ReadIndeterminate ''opt'', s)
                      | Holds b \<Rightarrow>
                          (let s = (if b \<noteq> None then (emit [DestroyOpt] s)\<lparr>opt := Holds None\<rparr>
                                    else s)
                           in Inr (if jdef s \<noteq> None then (emit [FreeDef] s)\<lparr>jdef := None\<rparr>
                                   else s)))))"

text \<open>
  \<^verbatim>\<open>if (success) success = (bufwrite(server, x, size) == size);\<close> for the frame
  number \<open>k\<close> of the message.
\<close>

definition bufwrite_if :: "env \<Rightarrow> int \<Rightarrow> nat \<Rightarrow> frame \<Rightarrow> slave \<Rightarrow> slave" where
  "bufwrite_if e fd k f s =
     (if success s
      then (emit [BufWrite fd f (bufwrite_full e k)] s)\<lparr>success := bufwrite_full e k\<rparr>
      else s)"

text \<open>\<^verbatim>\<open>bufread(server, &handshake, sizeof(int))\<close> for the handshake number \<open>k\<close>.\<close>

definition bufread_handshake :: "env \<Rightarrow> int \<Rightarrow> nat \<Rightarrow> slave \<Rightarrow> slave" where
  "bufread_handshake e fd k s = emit [BufRead fd (handshake e k)] s"

text \<open>
  The two tests after each \<^verbatim>\<open>bufread\<close> of a handshake: all its bytes came, and it
  is not zero. Both failures go to \<^verbatim>\<open>cleanup\<close>.
\<close>

definition handshake_ok :: "int option \<Rightarrow> bool" where
  "handshake_ok h = (case h of None \<Rightarrow> False | Some v \<Rightarrow> v \<noteq> 0)"

text \<open>
  Lines 833-883: the four frames with a handshake after each. Every way out of these
  lines leads to \<^verbatim>\<open>cleanup\<close>, which the caller applies to the state returned.
\<close>

definition write_message :: "env \<Rightarrow> int \<Rightarrow> jobdef_t \<Rightarrow> byte list \<Rightarrow> byte list \<Rightarrow> slave \<Rightarrow> slave" where
  "write_message e fd d a b s =
     (let s = s\<lparr>success := True\<rparr>;
          s = emit [Lock mutexhost] s;
          s = bufwrite_if e fd 0 (FrameHost (host s)) s;
          s = emit [Unlock mutexhost] s;
          s = bufread_handshake e fd 1 s
      in if \<not> handshake_ok (handshake e 1) then s
         else
     (let s = bufwrite_if e fd 1 (FrameJobdef d) s;
          s = bufread_handshake e fd 2 s
      in if \<not> handshake_ok (handshake e 2) then s
         else
     (let s = bufwrite_if e fd 2 (FrameBytes (take (unat (def_argsize d)) a)) s;
          s = bufread_handshake e fd 3 s
      in if \<not> handshake_ok (handshake e 3) then s
         else
     (let s = bufwrite_if e fd 3 (FrameBytes (take (unat (def_optsize d)) b)) s;
          s = bufread_handshake e fd 4 s
      in s))))"

text \<open>
  Lines 792-883, entered with the connection \<open>fd\<close> open: the first handshake, the
  serialisation of the results, the job definition, then the message.
\<close>

definition exchange :: "env \<Rightarrow> int \<Rightarrow> slave \<Rightarrow> (fault \<times> slave) + slave" where
  "exchange e fd s =
     (let s = bufread_handshake e fd 0 s
      in if \<not> handshake_ok (handshake e 0) then cleanup s
         else case argout s of
           Indeterminate \<Rightarrow> Inl (ReadIndeterminate ''argout'', s)
         | Holds out \<Rightarrow>
     (let s = s\<lparr>arg := Holds (mxSerialize e out)\<rparr>
      in case mxSerialize e out of
           None \<Rightarrow> cleanup s
         | Some a \<Rightarrow>
     (case options s of
           Indeterminate \<Rightarrow> Inl (ReadIndeterminate ''options'', s)
         | Holds opts \<Rightarrow>
     (let s = s\<lparr>opt := Holds (mxSerialize e opts)\<rparr>
      in case mxSerialize e opts of
           None \<Rightarrow> cleanup s
         | Some b \<Rightarrow>
             if \<not> malloc_ok e then cleanup s
             else case jobid s of
               Indeterminate \<Rightarrow> Inl (ReadIndeterminate ''jobid'', s)
             | Holds jid \<Rightarrow>
     (let d = \<lparr>def_version = VERSION e, def_id = jid, def_memreq = 0, def_cpureq = 0,
               def_timreq = 0, def_argsize = of_nat (length a),
               def_optsize = of_nat (length b)\<rparr>;
          s = s\<lparr>jdef := Some d\<rparr>
      in cleanup (write_message e fd d a b s))))))"

text \<open>
  Lines 738-790: look the submitter up and open the connection. The search compares
  \<^verbatim>\<open>peerid\<close> with each peer, so it reads \<^verbatim>\<open>peerid\<close> unless the table is empty.
  The variables of the cleanup are given their values at lines 762-765, after the first
  \<^verbatim>\<open>goto cleanup\<close> of line 753.
\<close>

definition send_results :: "env \<Rightarrow> slave \<Rightarrow> (fault \<times> slave) + slave" where
  "send_results e s =
     (let s = emit [Lock mutexpeerlist] s
      in case peerid s of
           Indeterminate \<Rightarrow>
             if peerlist e = [] then cleanup (emit [Unlock mutexpeerlist] s)
             else Inl (ReadIndeterminate ''peerid'', s)
         | Holds pid \<Rightarrow>
     (case find_peer (peerlist e) pid of
           None \<Rightarrow> cleanup (emit [Unlock mutexpeerlist] s)
         | Some peer \<Rightarrow>
     (let s = emit [Lock mutexhost] s;
          hasuds = (length (host_socket (peer_host peer)) > 0
                    \<and> host_name (peer_host peer) = host_name (host s));
          hastcp = (host_port (peer_host peer) > 0);
          s = emit [Unlock mutexhost] s;
          s = s\<lparr>server := Holds 0, jdef := None, arg := Holds None, opt := Holds None\<rparr>
      in if hasuds
         then (let fd = open_uds_connection e (host_socket (peer_host peer));
                   s = (emit [OpenUds (host_socket (peer_host peer)) fd] s)\<lparr>server := Holds fd\<rparr>
               in if fd < 0 then cleanup (emit [Unlock mutexpeerlist] s)
                  else exchange e fd (emit [Unlock mutexpeerlist] s))
         else if hastcp
         then (let fd = open_tcp_connection e (peer_ipaddr peer) (host_port (peer_host peer));
                   s = (emit [OpenTcp (peer_ipaddr peer) (host_port (peer_host peer)) fd] s)
                         \<lparr>server := Holds fd\<rparr>
               in if fd < 0 then cleanup (emit [Unlock mutexpeerlist] s)
                  else exchange e fd (emit [Unlock mutexpeerlist] s))
         else cleanup (emit [Unlock mutexpeerlist] s))))"

text \<open>
  A state without what the result-send protocol works on: the variables of the cleanup
  and the trace.
\<close>

definition outside_send :: "slave \<Rightarrow> slave" where
  "outside_send s =
     s\<lparr>server := Holds 0, arg := Holds None, opt := Holds None, jdef := None,
       success := False, trace := []\<rparr>"

text \<open>The state in which a phase that may fault ended.\<close>

fun result_state :: "(fault \<times> slave) + slave \<Rightarrow> slave" where
  "result_state (Inl (f, s)) = s"
| "result_state (Inr s) = s"


text \<open>The outside \<open>e\<close> with the network of \<open>n\<close> in its place.\<close>

definition with_network :: "env \<Rightarrow> env \<Rightarrow> env" where
  "with_network n e =
     e\<lparr>peerlist := peerlist n, open_uds_connection := open_uds_connection n,
       open_tcp_connection := open_tcp_connection n, handshake := handshake n,
       bufwrite_full := bufwrite_full n, mxSerialize := mxSerialize n,
       malloc_ok := malloc_ok n\<rparr>"

subsection \<open>The loop (lines 532-928)\<close>

text \<open>Lines 905-920.\<close>

definition finish_job :: "env \<Rightarrow> slave \<Rightarrow> slave" where
  "finish_job e s =
     (let s = clear_joblist s
      in if engineFailed s = 0
         then (switch_status STATUS_IDLE s)\<lparr>matlabFinished := now_finished e\<rparr>
         else s)"

text \<open>
  Lines 564-732, entered when \<^verbatim>\<open>jobcount()>0\<close>: start the engine if it does not
  run, execute the first job if the engine runs, and make up the results of a failure.
\<close>

definition execute_job :: "env \<Rightarrow> slave \<Rightarrow> slave" where
  "execute_job e s =
     (let s = (if matlabRunning s = 0 then start_engine e s else s);
          s = (if matlabRunning s \<noteq> 0 then engine_steps e (pickup_job e s) else s);
          s = (if engineFailed s \<noteq> 0 \<or> jobFailed s \<noteq> 0 then report_failure s else s)
      in synthesize_error s)"

text \<open>The body of the loop. A fault ends it with the state in which it happened.\<close>

definition slave_iteration :: "env \<Rightarrow> slave \<Rightarrow> (fault \<times> slave) + slave" where
  "slave_iteration e s =
     (let s = engine_idle_check e s
      in if zombie_timed_out e s then Inr (leave_zombie s)
         else if jobcount s > 0
         then (case send_results e (execute_job e s) of
                 Inl f \<Rightarrow> Inl f
               | Inr s \<Rightarrow> Inr (finish_job e s))
         else Inr (emit [ThreadSleep] s))"

text \<open>
  \<^verbatim>\<open>while (!engineAborted) { ... } return engineAborted;\<close> run against the answers
  of the outside, one record per iteration. Between two iterations the intake threads
  may have queued the jobs they were offered. The loop has left with \<open>Exit\<close>, is still
  looping when the answers end (\<open>Running\<close>), or has met a fault; each with the state
  it was in.
\<close>

datatype outcome = Exit int slave | Running slave | Crashed fault slave

fun slave_loop :: "env list \<Rightarrow> slave \<Rightarrow> outcome" where
  "slave_loop [] s = (if engineAborted s \<noteq> 0 then Exit (engineAborted s) s else Running s)"
| "slave_loop (e # es) s =
     (if engineAborted s \<noteq> 0 then Exit (engineAborted s) s
      else case slave_iteration e (intake (arrivals e) s) of
             Inl (f, s') \<Rightarrow> Crashed f s'
           | Inr s' \<Rightarrow> slave_loop es s')"

subsection \<open>The supervisor (lines 288-352)\<close>

text \<open>
  The configurations form a linked list that the supervisor walks in a circle; here the
  list of their \<^verbatim>\<open>pid\<close> fields and the position of \<^verbatim>\<open>cconf\<close> in it. Each iteration
  is answered by \<^verbatim>\<open>waitpid\<close> (\<open>None\<close>: it returned nothing positive, no child changed
  state) and by \<^verbatim>\<open>fork\<close>.
\<close>

datatype wstatus = WIFEXITED | WIFSIGNALED | WIFSTOPPED | WIFCONTINUED

record supervisor =
  sup_host_id :: uint32_t
  pids :: "int list"
  cconf :: nat
  sup_trace :: "event list"

record sup_env =
  waitpid_status :: "wstatus option"
  fork_result :: int

datatype supervision = Supervising supervisor | Child supervisor | ForkFailed supervisor

text \<open>Lines 293-308.\<close>

definition reap :: "sup_env \<Rightarrow> supervisor \<Rightarrow> supervisor" where
  "reap w s =
     (if pids s ! cconf s \<noteq> 0
      then (case waitpid_status w of
              None \<Rightarrow> s
            | Some WIFEXITED \<Rightarrow> s\<lparr>pids := (pids s)[cconf s := 0]\<rparr>
            | Some WIFSIGNALED \<Rightarrow> s\<lparr>pids := (pids s)[cconf s := 0]\<rparr>
            | Some WIFSTOPPED \<Rightarrow> s
            | Some WIFCONTINUED \<Rightarrow> s)
      else s)"

text \<open>Lines 310-341: the child leaves the loop, a failed fork ends the process.\<close>

definition spawn :: "sup_env \<Rightarrow> supervisor \<Rightarrow> supervision" where
  "spawn w s =
     (if pids s ! cconf s = 0
      then (let s = s\<lparr>sup_trace := sup_trace s @ [Lock mutexhost]\<rparr>;
                s = s\<lparr>sup_host_id := sup_host_id s + 1\<rparr>;
                s = s\<lparr>sup_trace := sup_trace s @ [Unlock mutexhost]\<rparr>;
                childpid = fork_result w;
                s = s\<lparr>sup_trace := sup_trace s @ [Fork (sup_host_id s) childpid]\<rparr>
            in if childpid \<ge> 0
               then (if childpid = 0 then Child s
                     else Supervising (s\<lparr>pids := (pids s)[cconf s := childpid]\<rparr>))
               else ForkFailed s)
      else Supervising s)"

text \<open>Lines 343-351: on to the next configuration, or back to the first, and sleep.\<close>

definition next_conf :: "supervisor \<Rightarrow> supervisor" where
  "next_conf s =
     (let s = (if cconf s + 1 < length (pids s) then s\<lparr>cconf := cconf s + 1\<rparr>
               else s\<lparr>cconf := 0\<rparr>)
      in s\<lparr>sup_trace := sup_trace s @ [ThreadSleep]\<rparr>)"

definition supervise_step :: "sup_env \<Rightarrow> supervisor \<Rightarrow> supervision" where
  "supervise_step w s =
     (case spawn w (reap w s) of
        Supervising s' \<Rightarrow> Supervising (next_conf s')
      | Child s' \<Rightarrow> Child s'
      | ForkFailed s' \<Rightarrow> ForkFailed s')"

text \<open>\<^verbatim>\<open>while (1)\<close> against a list of answers.\<close>

fun supervise :: "sup_env list \<Rightarrow> supervisor \<Rightarrow> supervision" where
  "supervise [] s = Supervising s"
| "supervise (w # ws) s =
     (case supervise_step w s of
        Supervising s' \<Rightarrow> supervise ws s'
      | Child s' \<Rightarrow> Child s'
      | ForkFailed s' \<Rightarrow> ForkFailed s')"

fun supervision_state :: "supervision \<Rightarrow> supervisor" where
  "supervision_state (Supervising s) = s"
| "supervision_state (Child s) = s"
| "supervision_state (ForkFailed s) = s"

subsection \<open>The command line (lines 111-246)\<close>










subsection \<open>Properties of traces\<close>

text \<open>
  After an event that satisfies \<open>trigger\<close>, no event that satisfies \<open>banned\<close> follows.
\<close>

fun quiet_after :: "(event \<Rightarrow> bool) \<Rightarrow> (event \<Rightarrow> bool) \<Rightarrow> event list \<Rightarrow> bool" where
  "quiet_after trigger banned [] = True"
| "quiet_after trigger banned (ev # evs) =
     ((if trigger ev then list_all (\<lambda>x. \<not> banned x) evs else True)
      \<and> quiet_after trigger banned evs)"

fun is_bufwrite :: "event \<Rightarrow> bool" where
  "is_bufwrite (BufWrite fd f full) = True"
| "is_bufwrite ev = False"

fun is_bufread :: "event \<Rightarrow> bool" where
  "is_bufread (BufRead fd h) = True"
| "is_bufread ev = False"





fun is_announce :: "event \<Rightarrow> bool" where
  "is_announce (Announce h) = True"
| "is_announce ev = False"

fun is_open :: "event \<Rightarrow> bool" where
  "is_open (OpenUds path fd) = True"
| "is_open (OpenTcp ip port fd) = True"
| "is_open ev = False"

text \<open>The mutexes held after an event, the one taken last first.\<close>

fun held_after :: "mutex list \<Rightarrow> event \<Rightarrow> mutex list" where
  "held_after held (Lock m) = m # held"
| "held_after held (Unlock m) = remove1 m held"
| "held_after held ev = held"





text \<open>Opening a connection, reading from a socket and writing to one.\<close>

definition is_socket_event :: "event \<Rightarrow> bool" where
  "is_socket_event ev = (is_open ev \<or> is_bufread ev \<or> is_bufwrite ev)"

text \<open>The number of announcements in a trace.\<close>

definition announcements :: "event list \<Rightarrow> nat" where
  "announcements evs = length (filter is_announce evs)"

text \<open>
  The mutexes held at the end of a trace, and a trace that keeps to \<open>lock_discipline\<close>
  and ends with no mutex held.
\<close>

definition held_at :: "event list \<Rightarrow> mutex list" where
  "held_at evs = foldl held_after [] evs"









subsection \<open>Sample inputs\<close>

text \<open>
  A worker with 100 seconds to offer, a submitter with id 42 that listens on a TCP
  port, its job 7 asking for 10 seconds, and an outside where everything succeeds.
\<close>

definition worker :: hostdef_t where
  "worker =
     \<lparr>host_id = 1, host_name = ''worker'', host_user = ''bob'', host_group = ''lab'',
      host_socket = [], host_port = 1702, host_status = STATUS_IDLE, host_timavail = 100,
      host_memavail = 1000, host_cpuavail = 1000, host_current = bzero_current\<rparr>"

definition submitter :: hostdef_t where
  "submitter =
     \<lparr>host_id = 42, host_name = ''master'', host_user = ''alice'', host_group = ''lab'',
      host_socket = [], host_port = 1701, host_status = STATUS_IDLE, host_timavail = 0,
      host_memavail = 0, host_cpuavail = 0, host_current = bzero_current\<rparr>"

definition job7 :: joblist_t where
  "job7 =
     \<lparr>job_host = submitter,
      job_job = \<lparr>def_version = 1, def_id = 7, def_memreq = 0, def_cpureq = 0, def_timreq = 10,
                 def_argsize = 2, def_optsize = 1\<rparr>,
      job_arg = [1, 2], job_opt = [3]\<rparr>"

definition job8 :: joblist_t where
  "job8 =
     \<lparr>job_host = submitter,
      job_job = \<lparr>def_version = 1, def_id = 8, def_memreq = 0, def_cpureq = 0, def_timreq = 20,
                 def_argsize = 1, def_optsize = 1\<rparr>,
      job_arg = [4], job_opt = [5]\<rparr>"

text \<open>A job that asks for 800000000 seconds.\<close>

definition long_job :: joblist_t where
  "long_job = job7\<lparr>job_job := (job_job job7)\<lparr>def_timreq := 800000000\<rparr>\<rparr>"

definition good_env :: env where
  "good_env =
     \<lparr>now_idle = 1000, now_zombie = 1000, now_failed = 1000, now_start = 1000,
      now_finished = 1005, engClose_ok = True, engOpen_ok = True,
      mxDeserialize = (\<lambda>bs. MxOpaque bs),
      mxDeserialize_opt = (\<lambda>bs. MxCell [Some (MxString ''key''), Some (MxOpaque bs)]),
      engPut_argin_ok = True, engPut_options_ok = True, engEval_ok = True,
      engGet_argout = Some (MxCell [Some (MxDouble 3)]), engGet_options = Some (MxCell []),
      peerlist = [\<lparr>peer_host = submitter, peer_ipaddr = ''10.0.0.42''\<rparr>],
      open_uds_connection = (\<lambda>path. 5), open_tcp_connection = (\<lambda>ip port. 6),
      handshake = (\<lambda>k. Some 1), bufwrite_full = (\<lambda>k. True),
      mxSerialize = (\<lambda>a. Some [9, 9, 9]), malloc_ok = True, VERSION = 1, arrivals = []\<rparr>"

definition idle_slave :: slave where
  "idle_slave = initial_slave worker [job7] ENGINETIMEOUT"




text \<open>An outside in which the submitter is no longer in the peer table.\<close>

definition submitter_gone :: env where
  "submitter_gone = good_env\<lparr>peerlist := []\<rparr>"



text \<open>An outside in which the engine fails to evaluate the job.\<close>

definition eval_fails :: env where
  "eval_fails = good_env\<lparr>engEval_ok := False\<rparr>"

text \<open>A slave with two jobs in its queue.\<close>

definition queue_of_two :: slave where
  "queue_of_two = initial_slave worker [job7, job8] ENGINETIMEOUT"

text \<open>
  An outside in which the submitter is in the peer table without a socket path and
  with port 0.
\<close>

definition unreachable_submitter :: env where
  "unreachable_submitter =
     good_env\<lparr>peerlist := [\<lparr>peer_host = submitter\<lparr>host_port := 0\<rparr>, peer_ipaddr = ''10.0.0.42''\<rparr>]\<rparr>"

text \<open>A worker that offers unlimited time: the largest value of the field.\<close>

definition generous_worker :: hostdef_t where
  "generous_worker = worker\<lparr>host_timavail := 18446744073709551615\<rparr>"











section \<open>Properties\<close>

subsection \<open>The allowance and the options of a job\<close>

lemma replicate_plus4: "replicate (n + 4) x = replicate n x @ [x, x, x, x]"
proof -
  have "replicate (4::nat) x = [x, x, x, x]" by (simp add: numeral_eq_Suc)
  then show ?thesis by (simp only: replicate_add)
qed

lemma copy_cells_take:
  "n \<le> length cs \<Longrightarrow> length ds = length cs + k \<Longrightarrow>
   copy_cells (MxCell cs) n (MxCell ds) = MxCell (take n cs @ drop n ds)"
proof (induction n)
  case 0
  then show ?case by (simp add: copy_cells_def)
next
  case (Suc n)
  then have "copy_cells (MxCell cs) (Suc n) (MxCell ds)
      = mxSetCell (MxCell (take n cs @ drop n ds)) n (mxGetCell (MxCell cs) n)"
    by (simp add: copy_cells_def)
  also have "\<dots> = MxCell ((take n cs @ drop n ds)[n := cs ! n])"
    using Suc.prems by simp
  finally show ?case
    using Suc.prems
    by (simp add: take_Suc_conv_app_nth list_update_append upd_conv_take_nth_drop drop_Suc Cons_nth_drop_Suc)
qed

lemma copy_cells_all:
  "copy_cells (MxCell cs) (length cs) (MxCell (replicate (length cs + 4) None)) =
     MxCell (cs @ [None, None, None, None])"
  using copy_cells_take [of "length cs" cs "replicate (length cs + 4) None" 4]
  by (simp add: replicate_plus4)

lemma watchdog_options_cells:
  "watchdog_options (MxCell cs) p t =
     MxCell (cs @ [Some (MxString ''masterid''), Some (MxDouble (uint p)),
                   Some (MxString ''timallow''), Some (MxDouble (sint t))])"
  by (simp add: watchdog_options_def mxCreateCellMatrix_def mxCreateString_def
        mxCreateDoubleScalar_def Let_def copy_cells_all list_update_append)

lemma signed_take_bit_31: "0 \<le> k \<Longrightarrow> k < 2 ^ 31 \<Longrightarrow> signed_take_bit 31 k = (k::int)"
  by (rule signed_take_bit_int_eq_self) simp_all

lemma uint_times3: "3 * uint (r :: 64 word) < 2 ^ 31 \<Longrightarrow> uint (3 * r) = 3 * uint r"
  by (simp add: uint_word_ariths take_bit_int_eq_self)

lemma sint_cut_times3:
  assumes "3 * uint (r :: 64 word) < 2 ^ 31"
  shows "sint (ucast (3 * r) :: 32 word) = 3 * uint r"
proof -
  have "sint (ucast (3 * r) :: 32 word) = signed_take_bit 31 (uint (3 * r))"
    by (simp add: signed_ucast_eq)
  also have "\<dots> = signed_take_bit 31 (3 * uint r)"
    using assms by (simp only: uint_times3)
  also have "\<dots> = 3 * uint r"
    using assms by (intro signed_take_bit_31) simp_all
  finally show ?thesis .
qed

lemma uint_extend_times3:
  assumes "3 * uint (r :: 64 word) < 2 ^ 31"
  shows "uint (scast (ucast (3 * r) :: 32 word) :: 64 word) = 3 * uint r"
proof -
  have "(scast (ucast (3 * r) :: 32 word) :: 64 word) = word_of_int (3 * uint r)"
    by (simp only: scast_eq sint_cut_times3 [OF assms])
  then have "uint (scast (ucast (3 * r) :: 32 word) :: 64 word) = take_bit 64 (3 * uint r)"
    by (simp only: uint_word_of_int_eq) simp
  also have "\<dots> = 3 * uint r"
    using assms by (intro take_bit_int_eq_self) simp_all
  finally show ?thesis .
qed

lemma timallow_in_range:
  assumes "3 * uint r < 2 ^ 31"
  shows "sint (timallow_of r a) = min (3 * uint r) (uint a)"
proof (cases "a < scast (ucast (3 * r) :: 32 word)")
  case True
  then have lt: "uint a < 3 * uint r"
    using uint_extend_times3 [OF assms] by (simp only: word_less_def)
  have "sint (ucast a :: 32 word) = signed_take_bit 31 (uint a)"
    by (simp add: signed_ucast_eq)
  also have "\<dots> = uint a"
    using lt assms by (intro signed_take_bit_31) simp_all
  finally show ?thesis
    using True lt by (simp add: timallow_of_def Let_def)
next
  case False
  then have "3 * uint r \<le> uint a"
    using uint_extend_times3 [OF assms] by (simp only: word_less_def not_less)
  then show ?thesis
    using False sint_cut_times3 [OF assms] by (simp add: timallow_of_def Let_def)
qed

lemma pickup_job_timallow:
  "timallow (pickup_job e s) =
     timallow_of (def_timreq (job_job (hd (joblist s)))) (host_timavail (host s))"
  by (simp add: pickup_job_def Let_def emit_def announce_once_def)

lemma pickup_job_options:
  "options (pickup_job e s) =
     Holds (watchdog_options
       (mxDeserialize_opt e (take (unat (def_optsize (job_job (hd (joblist s))))) (job_opt (hd (joblist s)))))
       (host_id (job_host (hd (joblist s))))
       (timallow_of (def_timreq (job_job (hd (joblist s)))) (host_timavail (host s))))"
  by (simp add: pickup_job_def Let_def emit_def announce_once_def)

lemma put_options_emits:
  "jobFailed s = 0 \<Longrightarrow> EngPutVariable ''options'' (options s) \<in> set (trace (put_options e s))"
  by (simp add: put_options_def emit_def)

lemma later_steps_keep_trace:
  "set (trace s) \<subseteq> set (trace (eval_job e s))"
  "set (trace s) \<subseteq> set (trace (get_argout e s))"
  "set (trace s) \<subseteq> set (trace (get_options e s))"
  by (auto simp add: eval_job_def get_argout_def get_options_def emit_def split: option.split)

lemma engine_steps_puts_options:
  assumes "engPut_argin_ok e"
  shows "EngPutVariable ''options'' (options s) \<in> set (trace (engine_steps e s))"
proof -
  let ?s1 = "put_argin e (s\<lparr>jobFailed := 0\<rparr>)"
  let ?s2 = "put_options e ?s1"
  have "jobFailed ?s1 = 0" and "options ?s1 = options s"
    using assms by (simp_all add: put_argin_def emit_def)
  then have "EngPutVariable ''options'' (options s) \<in> set (trace ?s2)"
    using put_options_emits [of ?s1 e] by simp
  then have "EngPutVariable ''options'' (options s) \<in> set (trace (destroy_inputs ?s2))"
    by (simp add: destroy_inputs_def)
  then have "EngPutVariable ''options'' (options s)
               \<in> set (trace (get_options e (get_argout e (eval_job e (destroy_inputs ?s2)))))"
    using later_steps_keep_trace by blast
  then show ?thesis by (simp add: engine_steps_def)
qed

text \<open>
  C1, as amended. For every job taken from the queue, the options handed to the engine
  are the submitted \<open>n\<close> cells followed by four more: the string "masterid", the host
  id of the submitter, the string "timallow" and the computed allowance. The allowance
  equals \<open>min (3 * timreq) timavail\<close> whenever \<open>3 * timreq\<close> fits the \<^verbatim>\<open>int\<close> that
  holds it (it is below \<open>2 ^ 31\<close>).
\<close>

theorem job_allowance_and_watchdog_options:
  assumes "joblist s = job # rest"
    and "mxDeserialize_opt e (take (unat (def_optsize (job_job job))) (job_opt job)) = MxCell cs"
  shows "options (pickup_job e s) =
           Holds (MxCell (cs @ [Some (MxString ''masterid''),
                               Some (MxDouble (uint (host_id (job_host job)))),
                               Some (MxString ''timallow''),
                               Some (MxDouble (sint (timallow (pickup_job e s))))]))
       \<and> (engPut_argin_ok e \<longrightarrow>
            EngPutVariable ''options'' (options (pickup_job e s))
              \<in> set (trace (engine_steps e (pickup_job e s))))
       \<and> (3 * uint (def_timreq (job_job job)) < 2 ^ 31 \<longrightarrow>
            sint (timallow (pickup_job e s)) =
              min (3 * uint (def_timreq (job_job job))) (uint (host_timavail (host s))))"
proof (intro conjI impI)
  show "options (pickup_job e s) =
           Holds (MxCell (cs @ [Some (MxString ''masterid''),
                               Some (MxDouble (uint (host_id (job_host job)))),
                               Some (MxString ''timallow''),
                               Some (MxDouble (sint (timallow (pickup_job e s))))]))"
    using assms by (simp add: pickup_job_timallow pickup_job_options watchdog_options_cells)
next
  assume "engPut_argin_ok e"
  then show "EngPutVariable ''options'' (options (pickup_job e s))
               \<in> set (trace (engine_steps e (pickup_job e s)))"
    by (rule engine_steps_puts_options)
next
  assume "3 * uint (def_timreq (job_job job)) < 2 ^ 31"
  then show "sint (timallow (pickup_job e s)) =
               min (3 * uint (def_timreq (job_job job))) (uint (host_timavail (host s)))"
    using assms by (simp add: pickup_job_timallow timallow_in_range)
qed

text \<open>The job of 10 seconds on the worker that offers 100: the allowance is 30.\<close>

theorem job_allowance_and_watchdog_options_witness:
  "options (pickup_job good_env idle_slave) =
     Holds (MxCell [Some (MxString ''key''), Some (MxOpaque [3]),
                    Some (MxString ''masterid''), Some (MxDouble 42),
                    Some (MxString ''timallow''), Some (MxDouble 30)])
   \<and> EngPutVariable ''options'' (options (pickup_job good_env idle_slave))
       \<in> set (trace (engine_steps good_env (pickup_job good_env idle_slave)))
   \<and> sint (timallow (pickup_job good_env idle_slave)) = 30"
proof -
  have q: "joblist idle_slave = job7 # []"
    by (simp add: idle_slave_def initial_slave_def)
  have d: "mxDeserialize_opt good_env (take (unat (def_optsize (job_job job7))) (job_opt job7))
             = MxCell [Some (MxString ''key''), Some (MxOpaque [3])]"
    by (simp add: good_env_def job7_def)
  have r: "3 * uint (def_timreq (job_job job7)) < 2 ^ 31"
    by (simp add: job7_def)
  have a: "engPut_argin_ok good_env"
    by (simp add: good_env_def)
  have m: "min (3 * uint (def_timreq (job_job job7))) (uint (host_timavail (host idle_slave))) = 30"
    by (simp add: job7_def idle_slave_def initial_slave_def worker_def)
  have i: "uint (host_id (job_host job7)) = 42"
    by (simp add: job7_def submitter_def)
  note t = job_allowance_and_watchdog_options [OF q d]
  from t r m have t3: "sint (timallow (pickup_job good_env idle_slave)) = 30"
    by simp
  from t a have t2: "EngPutVariable ''options'' (options (pickup_job good_env idle_slave))
       \<in> set (trace (engine_steps good_env (pickup_job good_env idle_slave)))"
    by blast
  from t t3 i have t1: "options (pickup_job good_env idle_slave) =
     Holds (MxCell [Some (MxString ''key''), Some (MxOpaque [3]),
                    Some (MxString ''masterid''), Some (MxDouble 42),
                    Some (MxString ''timallow''), Some (MxDouble 30)])"
    by simp
  from t1 t2 t3 show ?thesis by blast
qed

text \<open>
  C1 as stated fails where \<open>3 * timreq\<close> does not fit: a job that asks for 800000000
  seconds on a worker with unlimited time gets the allowance -1894967296, not
  2400000000.
\<close>

theorem job_allowance_counterexample:
  "sint (timallow (pickup_job good_env (initial_slave generous_worker [long_job] ENGINETIMEOUT)))
     \<noteq> min (3 * uint (def_timreq (job_job long_job))) (uint (host_timavail generous_worker))"
  by (simp add: pickup_job_timallow initial_slave_def long_job_def job7_def generous_worker_def
        worker_def timallow_of_def)

subsection \<open>What each phase leaves alone\<close>

lemma engine_idle_check_fields [simp]:
  "joblist (engine_idle_check e s) = joblist s"
  "host (engine_idle_check e s) = host s"
  "engineFailed (engine_idle_check e s) = engineFailed s"
  "engineAborted (engine_idle_check e s) = engineAborted s"
  "jobFailed (engine_idle_check e s) = jobFailed s"
  "zombietimeout (engine_idle_check e s) = zombietimeout s"
  "server (engine_idle_check e s) = server s"
  "arg (engine_idle_check e s) = arg s"
  "opt (engine_idle_check e s) = opt s"
  by (simp_all add: engine_idle_check_def emit_def)

lemma zombie_timed_out_idle_check [simp]:
  "zombie_timed_out e (engine_idle_check e s) = zombie_timed_out e s"
  by (simp add: zombie_timed_out_def)

lemma start_engine_fields [simp]:
  "joblist (start_engine e s) = joblist s"
  "engineAborted (start_engine e s) = engineAborted s"
  "jobFailed (start_engine e s) = jobFailed s"
  "server (start_engine e s) = server s"
  "arg (start_engine e s) = arg s"
  "opt (start_engine e s) = opt s"
  by (simp_all add: start_engine_def switch_status_def announce_once_def emit_def Let_def)

lemma start_engine_running:
  "matlabRunning (start_engine e s) = (if engOpen_ok e then 1 else 0)"
  by (simp add: start_engine_def switch_status_def announce_once_def emit_def Let_def)

lemma pickup_job_fields [simp]:
  "joblist (pickup_job e s) = joblist s"
  "engineAborted (pickup_job e s) = engineAborted s"
  "engineFailed (pickup_job e s) = engineFailed s"
  "matlabRunning (pickup_job e s) = matlabRunning s"
  "server (pickup_job e s) = server s"
  "arg (pickup_job e s) = arg s"
  "opt (pickup_job e s) = opt s"
  "jobid (pickup_job e s) = Holds (def_id (job_job (hd (joblist s))))"
  "peerid (pickup_job e s) = Holds (host_id (job_host (hd (joblist s))))"
  by (simp_all add: pickup_job_def announce_once_def emit_def Let_def)

lemmas engine_step_defs = put_argin_def put_options_def destroy_inputs_def eval_job_def
  get_argout_def get_options_def

lemma put_argin_fields [simp]:
  "joblist (put_argin e s) = joblist s"
  "engineFailed (put_argin e s) = engineFailed s"
  "engineAborted (put_argin e s) = engineAborted s"
  "matlabRunning (put_argin e s) = matlabRunning s"
  "server (put_argin e s) = server s"
  "arg (put_argin e s) = arg s"
  "opt (put_argin e s) = opt s"
  "jobid (put_argin e s) = jobid s"
  "peerid (put_argin e s) = peerid s"
  "host (put_argin e s) = host s"
  "options (put_argin e s) = options s"
  "jobFailed (put_argin e s) = (if jobFailed s = 0 \<and> \<not> engPut_argin_ok e then 1 else jobFailed s)"
  by (simp_all add: put_argin_def emit_def)

lemma put_options_fields [simp]:
  "joblist (put_options e s) = joblist s"
  "engineFailed (put_options e s) = engineFailed s"
  "engineAborted (put_options e s) = engineAborted s"
  "matlabRunning (put_options e s) = matlabRunning s"
  "server (put_options e s) = server s"
  "arg (put_options e s) = arg s"
  "opt (put_options e s) = opt s"
  "jobid (put_options e s) = jobid s"
  "peerid (put_options e s) = peerid s"
  "host (put_options e s) = host s"
  "jobFailed (put_options e s) = (if jobFailed s = 0 \<and> \<not> engPut_options_ok e then 2 else jobFailed s)"
  by (simp_all add: put_options_def emit_def)

lemma destroy_inputs_fields [simp]:
  "joblist (destroy_inputs s) = joblist s"
  "engineFailed (destroy_inputs s) = engineFailed s"
  "engineAborted (destroy_inputs s) = engineAborted s"
  "matlabRunning (destroy_inputs s) = matlabRunning s"
  "server (destroy_inputs s) = server s"
  "arg (destroy_inputs s) = arg s"
  "opt (destroy_inputs s) = opt s"
  "jobid (destroy_inputs s) = jobid s"
  "peerid (destroy_inputs s) = peerid s"
  "host (destroy_inputs s) = host s"
  "jobFailed (destroy_inputs s) = jobFailed s"
  "trace (destroy_inputs s) = trace s"
  by (simp_all add: destroy_inputs_def)

lemma eval_job_fields [simp]:
  "joblist (eval_job e s) = joblist s"
  "engineFailed (eval_job e s) = engineFailed s"
  "matlabRunning (eval_job e s) = matlabRunning s"
  "server (eval_job e s) = server s"
  "arg (eval_job e s) = arg s"
  "opt (eval_job e s) = opt s"
  "jobid (eval_job e s) = jobid s"
  "peerid (eval_job e s) = peerid s"
  "host (eval_job e s) = host s"
  "jobFailed (eval_job e s) = (if jobFailed s = 0 \<and> \<not> engEval_ok e then 3 else jobFailed s)"
  "engineAborted (eval_job e s) = (if jobFailed s = 0 \<and> \<not> engEval_ok e then 1 else engineAborted s)"
  by (simp_all add: eval_job_def emit_def)

lemma get_argout_fields [simp]:
  "joblist (get_argout e s) = joblist s"
  "engineFailed (get_argout e s) = engineFailed s"
  "matlabRunning (get_argout e s) = matlabRunning s"
  "server (get_argout e s) = server s"
  "arg (get_argout e s) = arg s"
  "opt (get_argout e s) = opt s"
  "jobid (get_argout e s) = jobid s"
  "peerid (get_argout e s) = peerid s"
  "host (get_argout e s) = host s"
  "jobFailed (get_argout e s) = (if jobFailed s = 0 \<and> engGet_argout e = None then 4 else jobFailed s)"
  "engineAborted (get_argout e s) = (if jobFailed s = 0 \<and> engGet_argout e = None then 1 else engineAborted s)"
  by (simp_all add: get_argout_def emit_def split: option.split)

lemma get_options_fields [simp]:
  "joblist (get_options e s) = joblist s"
  "engineFailed (get_options e s) = engineFailed s"
  "matlabRunning (get_options e s) = matlabRunning s"
  "server (get_options e s) = server s"
  "arg (get_options e s) = arg s"
  "opt (get_options e s) = opt s"
  "jobid (get_options e s) = jobid s"
  "peerid (get_options e s) = peerid s"
  "host (get_options e s) = host s"
  "jobFailed (get_options e s) = (if jobFailed s = 0 \<and> engGet_options e = None then 5 else jobFailed s)"
  "engineAborted (get_options e s) = (if jobFailed s = 0 \<and> engGet_options e = None then 1 else engineAborted s)"
  by (simp_all add: get_options_def emit_def split: option.split)

lemma engine_steps_fields [simp]:
  "joblist (engine_steps e s) = joblist s"
  "engineFailed (engine_steps e s) = engineFailed s"
  "matlabRunning (engine_steps e s) = matlabRunning s"
  "server (engine_steps e s) = server s"
  "arg (engine_steps e s) = arg s"
  "opt (engine_steps e s) = opt s"
  "jobid (engine_steps e s) = jobid s"
  "peerid (engine_steps e s) = peerid s"
  "host (engine_steps e s) = host s"
  by (simp_all add: engine_steps_def)

lemma engine_steps_jobFailed:
  "jobFailed (engine_steps e s) =
     (if \<not> engPut_argin_ok e then 1
      else if \<not> engPut_options_ok e then 2
      else if \<not> engEval_ok e then 3
      else if engGet_argout e = None then 4
      else if engGet_options e = None then 5
      else 0)"
  by (simp add: engine_steps_def)

lemma engine_steps_engineAborted:
  "engineAborted (engine_steps e s) =
     (if engPut_argin_ok e \<and> engPut_options_ok e
         \<and> (\<not> engEval_ok e \<or> engGet_argout e = None \<or> engGet_options e = None)
      then 1 else engineAborted s)"
  by (simp add: engine_steps_def)

lemma get_argout_result:
  "jobFailed (get_argout e s) = 0 \<Longrightarrow> jobFailed s = 0 \<Longrightarrow> \<exists>a. argout (get_argout e s) = Holds a"
  by (cases "engGet_argout e") (simp_all add: get_argout_def emit_def)

lemma get_options_result:
  "jobFailed (get_options e s) = 0 \<Longrightarrow> jobFailed s = 0 \<Longrightarrow>
     (\<exists>b. options (get_options e s) = Holds b) \<and> argout (get_options e s) = argout s"
  by (cases "engGet_options e") (simp_all add: get_options_def emit_def)

lemma engine_steps_results:
  assumes "jobFailed (engine_steps e s) = 0"
  shows "(\<exists>a. argout (engine_steps e s) = Holds a) \<and> (\<exists>b. options (engine_steps e s) = Holds b)"
proof -
  let ?s5 = "get_argout e (eval_job e (destroy_inputs (put_options e (put_argin e (s\<lparr>jobFailed := 0\<rparr>)))))"
  have eq: "engine_steps e s = get_options e ?s5"
    by (simp add: engine_steps_def)
  with assms have f6: "jobFailed (get_options e ?s5) = 0" by simp
  then have f5: "jobFailed ?s5 = 0" by (simp split: if_splits)
  then have f4: "jobFailed (eval_job e (destroy_inputs (put_options e (put_argin e (s\<lparr>jobFailed := 0\<rparr>))))) = 0"
    by (simp split: if_splits)
  from get_options_result [OF f6 f5] get_argout_result [OF f5 f4] eq show ?thesis by simp
qed

lemma report_failure_fields [simp]:
  "joblist (report_failure s) = joblist s"
  "engineAborted (report_failure s) = engineAborted s"
  "engineFailed (report_failure s) = engineFailed s"
  "jobFailed (report_failure s) = jobFailed s"
  "matlabRunning (report_failure s) = matlabRunning s"
  "server (report_failure s) = server s"
  "arg (report_failure s) = arg s"
  "opt (report_failure s) = opt s"
  "argout (report_failure s) = argout s"
  "options (report_failure s) = options s"
  "host (report_failure s) = host s"
  "jobid (report_failure s) = Holds (def_id (job_job (hd (joblist s))))"
  "peerid (report_failure s) = Holds (host_id (job_host (hd (joblist s))))"
  by (simp_all add: report_failure_def emit_def Let_def)

lemma synthesize_error_fields [simp]:
  "joblist (synthesize_error s) = joblist s"
  "engineAborted (synthesize_error s) = engineAborted s"
  "engineFailed (synthesize_error s) = engineFailed s"
  "jobFailed (synthesize_error s) = jobFailed s"
  "matlabRunning (synthesize_error s) = matlabRunning s"
  "server (synthesize_error s) = server s"
  "arg (synthesize_error s) = arg s"
  "opt (synthesize_error s) = opt s"
  "jobid (synthesize_error s) = jobid s"
  "peerid (synthesize_error s) = peerid s"
  "host (synthesize_error s) = host s"
  "trace (synthesize_error s) = trace s"
  by (simp_all add: synthesize_error_def)

lemma synthesize_error_results:
  "engineFailed s \<noteq> 0 \<or> jobFailed s \<noteq> 0 \<Longrightarrow>
     (\<exists>a. argout (synthesize_error s) = Holds a) \<and> (\<exists>b. options (synthesize_error s) = Holds b)"
  by (auto simp add: synthesize_error_def)

lemma synthesize_error_keeps:
  "engineFailed s = 0 \<Longrightarrow> jobFailed s = 0 \<Longrightarrow> synthesize_error s = s"
  by (simp add: synthesize_error_def)

lemma finish_job_fields [simp]:
  "joblist (finish_job e s) = []"
  "engineAborted (finish_job e s) = engineAborted s"
  "engineFailed (finish_job e s) = engineFailed s"
  "jobFailed (finish_job e s) = jobFailed s"
  "matlabRunning (finish_job e s) = matlabRunning s"
  "server (finish_job e s) = server s"
  "arg (finish_job e s) = arg s"
  "opt (finish_job e s) = opt s"
  by (simp_all add: finish_job_def clear_joblist_def switch_status_def announce_once_def emit_def Let_def)

subsection \<open>The result-send protocol leaves the loop's variables alone\<close>

lemma outside_send_simps [simp]:
  "outside_send (emit evs s) = outside_send s"
  "outside_send (s\<lparr>success := b\<rparr>) = outside_send s"
  "outside_send (s\<lparr>server := v\<rparr>) = outside_send s"
  "outside_send (s\<lparr>arg := a\<rparr>) = outside_send s"
  "outside_send (s\<lparr>opt := a\<rparr>) = outside_send s"
  "outside_send (s\<lparr>jdef := d\<rparr>) = outside_send s"
  by (simp_all add: outside_send_def emit_def)

lemma emit_fields [simp]:
  "server (emit evs s) = server s"
  "arg (emit evs s) = arg s"
  "opt (emit evs s) = opt s"
  "jdef (emit evs s) = jdef s"
  "argout (emit evs s) = argout s"
  "options (emit evs s) = options s"
  "jobid (emit evs s) = jobid s"
  "peerid (emit evs s) = peerid s"
  "host (emit evs s) = host s"
  "success (emit evs s) = success s"
  "trace (emit evs s) = trace s @ evs"
  by (simp_all add: emit_def)

lemma cleanup_outside [simp]:
  "outside_send (result_state (cleanup s)) = outside_send s"
  by (simp add: cleanup_def Let_def split: cvar.split)

lemma cleanup_total [simp]:
  "isl (cleanup s) = (server s = Indeterminate \<or> arg s = Indeterminate \<or> opt s = Indeterminate)"
  by (simp add: cleanup_def Let_def split: cvar.split)

lemma bufwrite_if_fields [simp]:
  "outside_send (bufwrite_if e fd k f s) = outside_send s"
  "server (bufwrite_if e fd k f s) = server s"
  "arg (bufwrite_if e fd k f s) = arg s"
  "opt (bufwrite_if e fd k f s) = opt s"
  "jdef (bufwrite_if e fd k f s) = jdef s"
  "host (bufwrite_if e fd k f s) = host s"
  by (simp_all add: bufwrite_if_def)

lemma bufread_handshake_fields [simp]:
  "outside_send (bufread_handshake e fd k s) = outside_send s"
  "server (bufread_handshake e fd k s) = server s"
  "arg (bufread_handshake e fd k s) = arg s"
  "opt (bufread_handshake e fd k s) = opt s"
  "jdef (bufread_handshake e fd k s) = jdef s"
  "host (bufread_handshake e fd k s) = host s"
  "success (bufread_handshake e fd k s) = success s"
  "argout (bufread_handshake e fd k s) = argout s"
  "options (bufread_handshake e fd k s) = options s"
  "jobid (bufread_handshake e fd k s) = jobid s"
  by (simp_all add: bufread_handshake_def)

lemma write_message_fields [simp]:
  "outside_send (write_message e fd d a b s) = outside_send s"
  "server (write_message e fd d a b s) = server s"
  "arg (write_message e fd d a b s) = arg s"
  "opt (write_message e fd d a b s) = opt s"
  by (simp_all add: write_message_def Let_def)

lemma exchange_outside [simp]:
  "outside_send (result_state (exchange e fd s)) = outside_send s"
  by (simp add: exchange_def Let_def split: cvar.split option.split)

lemma exchange_returns:
  assumes "server s \<noteq> Indeterminate" "arg s \<noteq> Indeterminate" "opt s \<noteq> Indeterminate"
    and "argout s \<noteq> Indeterminate" "options s \<noteq> Indeterminate" "jobid s \<noteq> Indeterminate"
  shows "\<not> isl (exchange e fd s)"
  using assms by (simp add: exchange_def Let_def split: cvar.split option.split)

lemma send_results_outside [simp]:
  "outside_send (result_state (send_results e s)) = outside_send s"
  by (simp add: send_results_def Let_def split: cvar.split option.split)

lemma outside_send_fields:
  "jobFailed (outside_send s) = jobFailed s"
  "engineAborted (outside_send s) = engineAborted s"
  "engineFailed (outside_send s) = engineFailed s"
  "matlabRunning (outside_send s) = matlabRunning s"
  "matlabStart (outside_send s) = matlabStart s"
  "matlabFinished (outside_send s) = matlabFinished s"
  "host (outside_send s) = host s"
  "joblist (outside_send s) = joblist s"
  "argout (outside_send s) = argout s"
  "options (outside_send s) = options s"
  "jobid (outside_send s) = jobid s"
  "peerid (outside_send s) = peerid s"
  "zombietimeout (outside_send s) = zombietimeout s"
  "enginetimeout (outside_send s) = enginetimeout s"
  by (simp_all add: outside_send_def)

lemma send_results_keeps:
  assumes "send_results e s = Inr s'"
  shows "jobFailed s' = jobFailed s" "engineAborted s' = engineAborted s"
    "engineFailed s' = engineFailed s" "matlabRunning s' = matlabRunning s"
    "host s' = host s" "joblist s' = joblist s" "argout s' = argout s"
    "options s' = options s" "zombietimeout s' = zombietimeout s"
    "enginetimeout s' = enginetimeout s" "matlabFinished s' = matlabFinished s"
proof -
  have eq: "outside_send s' = outside_send s"
    using send_results_outside [of e s] assms by simp
  show "jobFailed s' = jobFailed s" "engineAborted s' = engineAborted s"
    "engineFailed s' = engineFailed s" "matlabRunning s' = matlabRunning s"
    "host s' = host s" "joblist s' = joblist s" "argout s' = argout s"
    "options s' = options s" "zombietimeout s' = zombietimeout s"
    "enginetimeout s' = enginetimeout s" "matlabFinished s' = matlabFinished s"
    using arg_cong [OF eq, of jobFailed] arg_cong [OF eq, of engineAborted]
      arg_cong [OF eq, of engineFailed] arg_cong [OF eq, of matlabRunning]
      arg_cong [OF eq, of host] arg_cong [OF eq, of joblist] arg_cong [OF eq, of argout]
      arg_cong [OF eq, of options] arg_cong [OF eq, of zombietimeout]
      arg_cong [OF eq, of enginetimeout] arg_cong [OF eq, of matlabFinished]
    by (simp_all add: outside_send_fields)
qed


lemma find_peer_in_list: "find_peer ps pid = Some p \<Longrightarrow> ps \<noteq> []"
  by (cases ps) simp_all

lemma send_results_returns:
  assumes "peerid s = Holds pid" "argout s \<noteq> Indeterminate" "options s \<noteq> Indeterminate"
    and "jobid s \<noteq> Indeterminate"
    and "find_peer (peerlist e) pid \<noteq> None
         \<or> (server s \<noteq> Indeterminate \<and> arg s \<noteq> Indeterminate \<and> opt s \<noteq> Indeterminate)"
  shows "\<not> isl (send_results e s)"
  using assms
  by (auto simp add: send_results_def Let_def exchange_returns split: option.split)

subsection \<open>The execution of a job\<close>

lemma execute_job_fields [simp]:
  "joblist (execute_job e s) = joblist s"
  "server (execute_job e s) = server s"
  "arg (execute_job e s) = arg s"
  "opt (execute_job e s) = opt s"
  by (simp_all add: execute_job_def Let_def)

lemma maybe_report_fields [simp]:
  "jobFailed (if c then report_failure x else x) = jobFailed x"
  "engineAborted (if c then report_failure x else x) = engineAborted x"
  "engineFailed (if c then report_failure x else x) = engineFailed x"
  "joblist (if c then report_failure x else x) = joblist x"
  "host (if c then report_failure x else x) = host x"
  "argout (if c then report_failure x else x) = argout x"
  "options (if c then report_failure x else x) = options x"
  by simp_all

lemma execute_job_unfold:
  assumes "engOpen_ok e \<or> matlabRunning s \<noteq> 0"
  obtains s2 where "matlabRunning s2 \<noteq> 0" "joblist s2 = joblist s"
    "engineAborted s2 = engineAborted s"
    "execute_job e s =
       synthesize_error
         (if engineFailed (engine_steps e (pickup_job e s2)) \<noteq> 0
             \<or> jobFailed (engine_steps e (pickup_job e s2)) \<noteq> 0
          then report_failure (engine_steps e (pickup_job e s2))
          else engine_steps e (pickup_job e s2))"
proof
  let ?s2 = "if matlabRunning s = 0 then start_engine e s else s"
  show run: "matlabRunning ?s2 \<noteq> 0"
    using assms by (auto simp add: start_engine_running)
  show "joblist ?s2 = joblist s" "engineAborted ?s2 = engineAborted s"
    by simp_all
  from run show "execute_job e s =
       synthesize_error
         (if engineFailed (engine_steps e (pickup_job e ?s2)) \<noteq> 0
             \<or> jobFailed (engine_steps e (pickup_job e ?s2)) \<noteq> 0
          then report_failure (engine_steps e (pickup_job e ?s2))
          else engine_steps e (pickup_job e ?s2))"
    by (simp add: execute_job_def Let_def)
qed

lemma execute_job_with_engine:
  assumes "engOpen_ok e \<or> matlabRunning s \<noteq> 0"
  shows "jobFailed (execute_job e s) =
           (if \<not> engPut_argin_ok e then 1
            else if \<not> engPut_options_ok e then 2
            else if \<not> engEval_ok e then 3
            else if engGet_argout e = None then 4
            else if engGet_options e = None then 5
            else 0)"
    and "engineAborted (execute_job e s) =
           (if engPut_argin_ok e \<and> engPut_options_ok e
               \<and> (\<not> engEval_ok e \<or> engGet_argout e = None \<or> engGet_options e = None)
            then 1 else engineAborted s)"
    and "peerid (execute_job e s) = Holds (host_id (job_host (hd (joblist s))))"
    and "jobid (execute_job e s) = Holds (def_id (job_job (hd (joblist s))))"
proof -
  from assms obtain s2 where s2: "matlabRunning s2 \<noteq> 0" "joblist s2 = joblist s"
    "engineAborted s2 = engineAborted s"
    "execute_job e s =
       synthesize_error
         (if engineFailed (engine_steps e (pickup_job e s2)) \<noteq> 0
             \<or> jobFailed (engine_steps e (pickup_job e s2)) \<noteq> 0
          then report_failure (engine_steps e (pickup_job e s2))
          else engine_steps e (pickup_job e s2))"
    by (rule execute_job_unfold)
  show "jobFailed (execute_job e s) =
           (if \<not> engPut_argin_ok e then 1
            else if \<not> engPut_options_ok e then 2
            else if \<not> engEval_ok e then 3
            else if engGet_argout e = None then 4
            else if engGet_options e = None then 5
            else 0)"
    unfolding s2(4) by (simp add: engine_steps_jobFailed)
  show "engineAborted (execute_job e s) =
           (if engPut_argin_ok e \<and> engPut_options_ok e
               \<and> (\<not> engEval_ok e \<or> engGet_argout e = None \<or> engGet_options e = None)
            then 1 else engineAborted s)"
    unfolding s2(4) using s2(3) by (auto simp add: engine_steps_engineAborted)
  show "peerid (execute_job e s) = Holds (host_id (job_host (hd (joblist s))))"
    unfolding s2(4) using s2(2) by simp
  show "jobid (execute_job e s) = Holds (def_id (job_job (hd (joblist s))))"
    unfolding s2(4) using s2(2) by simp
qed

lemma execute_job_results:
  assumes "engOpen_ok e \<or> matlabRunning s \<noteq> 0"
  shows "argout (execute_job e s) \<noteq> Indeterminate \<and> options (execute_job e s) \<noteq> Indeterminate"
proof -
  from assms obtain s2 where eq:
    "execute_job e s =
       synthesize_error
         (if engineFailed (engine_steps e (pickup_job e s2)) \<noteq> 0
             \<or> jobFailed (engine_steps e (pickup_job e s2)) \<noteq> 0
          then report_failure (engine_steps e (pickup_job e s2))
          else engine_steps e (pickup_job e s2))"
    by (rule execute_job_unfold)
  let ?s3 = "engine_steps e (pickup_job e s2)"
  show ?thesis
  proof (cases "engineFailed ?s3 \<noteq> 0 \<or> jobFailed ?s3 \<noteq> 0")
    case True
    then have "engineFailed (report_failure ?s3) \<noteq> 0 \<or> jobFailed (report_failure ?s3) \<noteq> 0"
      by simp
    from synthesize_error_results [OF this] True eq show ?thesis by auto
  next
    case False
    then have "synthesize_error ?s3 = ?s3"
      by (simp add: synthesize_error_keeps)
    moreover from False have "jobFailed ?s3 = 0" by simp
    ultimately show ?thesis
      using engine_steps_results [of e "pickup_job e s2"] False eq by auto
  qed
qed

lemma slave_loop_aborted:
  "engineAborted s \<noteq> 0 \<Longrightarrow> slave_loop es s = Exit (engineAborted s) s"
  by (cases es) simp_all

subsection \<open>Failing engine steps\<close>

text \<open>
  C2. In an iteration that executes a job (the loop is running, a job is queued, the
  engine runs or can be started), \<^verbatim>\<open>jobFailed\<close> ends as the number of the first engine
  step that fails (1 put argin, 2 put options, 3 eval, 4 get argout, 5 get options; 0 if
  none fails), and \<^verbatim>\<open>engineAborted\<close> is set exactly for 3, 4 and 5. Once it is set the
  loop runs no further iteration, whatever the outside would answer, and
  \<^verbatim>\<open>main\<close> returns 1. The iteration comes to its end when the submitter is in the
  peer table or the variables of the cleanup have been assigned before.
\<close>

theorem engine_failure_flags_and_exit:
  assumes "engineAborted s = 0"
    and "joblist s \<noteq> []"
    and "\<not> zombie_timed_out e s"
    and "engOpen_ok e \<or> matlabRunning (engine_idle_check e s) \<noteq> 0"
    and "find_peer (peerlist e) (host_id (job_host (hd (joblist s)))) \<noteq> None
         \<or> (server s \<noteq> Indeterminate \<and> arg s \<noteq> Indeterminate \<and> opt s \<noteq> Indeterminate)"
  shows "\<exists>s'. slave_iteration e s = Inr s'
           \<and> jobFailed s' =
               (if \<not> engPut_argin_ok e then 1
                else if \<not> engPut_options_ok e then 2
                else if \<not> engEval_ok e then 3
                else if engGet_argout e = None then 4
                else if engGet_options e = None then 5
                else 0)
           \<and> engineAborted s' =
               (if jobFailed s' = 3 \<or> jobFailed s' = 4 \<or> jobFailed s' = 5 then 1 else 0)
           \<and> (engineAborted s' \<noteq> 0 \<longrightarrow> (\<forall>es. slave_loop es s' = Exit 1 s'))"
proof -
  let ?s1 = "engine_idle_check e s"
  let ?s5 = "execute_job e ?s1"
  have "\<not> isl (send_results e ?s5)"
    using assms(4,5) execute_job_with_engine(3,4) [OF assms(4)] execute_job_results [OF assms(4)]
    by (intro send_results_returns [where pid = "host_id (job_host (hd (joblist s)))"]) simp_all
  then obtain s6 where s6: "send_results e ?s5 = Inr s6"
    by (cases "send_results e ?s5") simp_all
  let ?s' = "finish_job e s6"
  have it: "slave_iteration e s = Inr ?s'"
    using assms(2,3) s6 by (simp add: slave_iteration_def Let_def jobcount_def)
  have jf: "jobFailed ?s' =
               (if \<not> engPut_argin_ok e then 1
                else if \<not> engPut_options_ok e then 2
                else if \<not> engEval_ok e then 3
                else if engGet_argout e = None then 4
                else if engGet_options e = None then 5
                else 0)"
    using send_results_keeps(1) [OF s6] execute_job_with_engine(1) [OF assms(4)] by simp
  have ea: "engineAborted ?s' =
           (if engPut_argin_ok e \<and> engPut_options_ok e
               \<and> (\<not> engEval_ok e \<or> engGet_argout e = None \<or> engGet_options e = None)
            then 1 else 0)"
    using send_results_keeps(2) [OF s6] execute_job_with_engine(2) [OF assms(4)] assms(1) by simp
  have ea': "engineAborted ?s' =
               (if jobFailed ?s' = 3 \<or> jobFailed ?s' = 4 \<or> jobFailed ?s' = 5 then 1 else 0)"
    unfolding jf ea by simp
  have "\<forall>es. slave_loop es ?s' = Exit 1 ?s'" if "engineAborted ?s' \<noteq> 0"
  proof -
    from that ea' have "engineAborted ?s' = 1" by (simp split: if_splits)
    with slave_loop_aborted [of ?s'] show ?thesis by simp
  qed
  with it jf ea' show ?thesis by blast
qed

text \<open>The first job of a fresh slave whose engine fails to evaluate: step 3, exit 1.\<close>

theorem engine_failure_flags_and_exit_witness:
  "\<exists>s'. slave_iteration eval_fails idle_slave = Inr s' \<and> jobFailed s' = 3
      \<and> engineAborted s' = 1 \<and> slave_loop [good_env] s' = Exit 1 s'"
proof -
  have a: "engineAborted idle_slave = 0" "joblist idle_slave \<noteq> []"
      "\<not> zombie_timed_out eval_fails idle_slave"
      "engOpen_ok eval_fails \<or> matlabRunning (engine_idle_check eval_fails idle_slave) \<noteq> 0"
    by (simp_all add: idle_slave_def initial_slave_def eval_fails_def good_env_def
          zombie_timed_out_def)
  have b: "find_peer (peerlist eval_fails) (host_id (job_host (hd (joblist idle_slave)))) \<noteq> None
         \<or> (server idle_slave \<noteq> Indeterminate \<and> arg idle_slave \<noteq> Indeterminate
              \<and> opt idle_slave \<noteq> Indeterminate)"
    by (simp add: idle_slave_def initial_slave_def eval_fails_def good_env_def job7_def)
  have c: "engPut_argin_ok eval_fails" "engPut_options_ok eval_fails" "\<not> engEval_ok eval_fails"
    by (simp_all add: eval_fails_def good_env_def)
  from engine_failure_flags_and_exit [OF a b] c show ?thesis
    by (auto split: if_splits)
qed

subsection \<open>Announcements\<close>

lemma announcements_append [simp]:
  "announcements (xs @ ys) = announcements xs + announcements ys"
  by (simp add: announcements_def)

lemma announcements_simps [simp]:
  "announcements [] = 0"
  "announcements (Announce h # evs) = Suc (announcements evs)"
  "announcements (Lock m # evs) = announcements evs"
  "announcements (Unlock m # evs) = announcements evs"
  "announcements (EngOpen ok # evs) = announcements evs"
  "announcements (EngClose # evs) = announcements evs"
  "announcements (OpenUds path fd # evs) = announcements evs"
  "announcements (OpenTcp ip port fd # evs) = announcements evs"
  "announcements (BufRead fd hs # evs) = announcements evs"
  "announcements (BufWrite fd f full # evs) = announcements evs"
  "announcements (CloseConnection fd # evs) = announcements evs"
  "announcements (DestroyArg # evs) = announcements evs"
  "announcements (DestroyOpt # evs) = announcements evs"
  "announcements (FreeDef # evs) = announcements evs"
  "announcements (ClearJoblist # evs) = announcements evs"
  "announcements (ThreadSleep # evs) = announcements evs"
  by (simp_all add: announcements_def)

lemma cleanup_announcements [simp]:
  "announcements (trace (result_state (cleanup s))) = announcements (trace s)"
  by (simp add: cleanup_def Let_def split: cvar.split)

lemma bufwrite_if_announcements [simp]:
  "announcements (trace (bufwrite_if e fd k f s)) = announcements (trace s)"
  by (simp add: bufwrite_if_def)

lemma bufread_handshake_announcements [simp]:
  "announcements (trace (bufread_handshake e fd k s)) = announcements (trace s)"
  by (simp add: bufread_handshake_def)

lemma write_message_announcements [simp]:
  "announcements (trace (write_message e fd d a b s)) = announcements (trace s)"
  by (simp add: write_message_def Let_def)

lemma exchange_announcements [simp]:
  "announcements (trace (result_state (exchange e fd s))) = announcements (trace s)"
  by (simp add: exchange_def Let_def split: cvar.split option.split)


subsection \<open>An engine that does not start\<close>

lemma lasterr_options_cells:
  "lasterr_options msg = MxCell [Some (MxString ''lasterr''), Some (MxString msg)]"
  by (simp add: lasterr_options_def mxCreateCellMatrix_def mxCreateString_def numeral_2_eq_2)

lemma one_empty_cell: "mxCreateCellMatrix 1 1 = MxCell [None]"
  by (simp add: mxCreateCellMatrix_def)

lemma execute_job_no_engine:
  assumes "matlabRunning s = 0" "\<not> engOpen_ok e" "now_failed e \<noteq> 0"
  shows "execute_job e s = synthesize_error (report_failure (start_engine e s))"
    and "engineFailed (execute_job e s) = now_failed e"
    and "matlabRunning (execute_job e s) = 0"
    and "engineAborted (execute_job e s) = engineAborted s"
    and "zombietimeout (execute_job e s) = zombietimeout s"
    and "host (execute_job e s) =
           (host s)\<lparr>host_status := STATUS_ZOMBIE, host_current := bzero_current\<rparr>"
    and "peerid (execute_job e s) = Holds (host_id (job_host (hd (joblist s))))"
    and "jobid (execute_job e s) = Holds (def_id (job_job (hd (joblist s))))"
    and "argout (execute_job e s) = Holds (MxCell [None])"
    and "options (execute_job e s) =
           Holds (MxCell [Some (MxString ''lasterr''),
                          Some (MxString ''could not start the matlab engine'')])"
    and "announcements (trace (execute_job e s)) = announcements (trace s) + 1"
  using assms
  by (simp_all add: execute_job_def start_engine_def switch_status_def announce_once_def
        report_failure_def synthesize_error_def lasterr_options_cells mxCreateCellMatrix_def
        emit_def Let_def)




lemma clear_joblist_fields [simp]:
  "joblist (clear_joblist s) = []"
  "host (clear_joblist s) = host s"
  "engineFailed (clear_joblist s) = engineFailed s"
  "engineAborted (clear_joblist s) = engineAborted s"
  "matlabRunning (clear_joblist s) = matlabRunning s"
  "zombietimeout (clear_joblist s) = zombietimeout s"
  "announcements (trace (clear_joblist s)) = announcements (trace s)"
  by (simp_all add: clear_joblist_def emit_def)





lemma engine_idle_check_more [simp]:
  "announcements (trace (engine_idle_check e s)) = announcements (trace s)"
  "enginetimeout (engine_idle_check e s) = enginetimeout s"
  by (simp_all add: engine_idle_check_def emit_def)




subsection \<open>The events of each phase\<close>

lemma phase_traces [simp]:
  "trace (switch_status st s) =
     trace s @ [Lock mutexhost, Unlock mutexhost,
                Announce ((host s)\<lparr>host_status := st, host_current := bzero_current\<rparr>)]"
  "trace (engine_idle_check e s) =
     trace s @ (if matlabRunning s \<noteq> 0 \<and> now_idle e - matlabFinished s > int (enginetimeout s)
                then [EngClose] else [])"
  "trace (start_engine e s) =
     trace s @ (if engOpen_ok e then [EngOpen True]
                else [EngOpen False, Lock mutexhost, Unlock mutexhost,
                      Announce ((host s)\<lparr>host_status := STATUS_ZOMBIE,
                                          host_current := bzero_current\<rparr>)])"
  "trace (report_failure s) = trace s @ [Lock mutexjoblist, Unlock mutexjoblist]"
  "trace (clear_joblist s) = trace s @ [ClearJoblist]"
  "trace (put_argin e s) =
     trace s @ (if jobFailed s = 0 then [EngPutVariable ''argin'' (argin s)] else [])"
  "trace (put_options e s) =
     trace s @ (if jobFailed s = 0 then [EngPutVariable ''options'' (options s)] else [])"
  "trace (eval_job e s) =
     trace s @ (if jobFailed s = 0
                then [EngEvalString ''[argout, options] = peerexec(argin, options);''] else [])"
  "trace (get_argout e s) =
     trace s @ (if jobFailed s = 0 then [EngGetVariable ''argout''] else [])"
  "trace (get_options e s) =
     trace s @ (if jobFailed s = 0 then [EngGetVariable ''options''] else [])"
  by (simp_all add: switch_status_def announce_once_def engine_idle_check_def start_engine_def
        report_failure_def clear_joblist_def put_argin_def put_options_def eval_job_def
        get_argout_def get_options_def emit_def Let_def split: option.split)

lemma pickup_job_trace [simp]:
  "trace (pickup_job e s) =
     trace s @ [Lock mutexjoblist, Lock mutexhost, Unlock mutexhost,
                Announce (host (pickup_job e s)), Unlock mutexjoblist]"
  by (simp add: pickup_job_def announce_once_def emit_def Let_def)

lemma finish_job_trace:
  "trace (finish_job e s) =
     trace s @ (if engineFailed s = 0
                then [ClearJoblist, Lock mutexhost, Unlock mutexhost,
                      Announce ((host s)\<lparr>host_status := STATUS_IDLE,
                                          host_current := bzero_current\<rparr>)]
                else [ClearJoblist])"
  by (simp add: finish_job_def Let_def)

lemma finish_job_host:
  "host (finish_job e s) =
     (if engineFailed s = 0
      then (host s)\<lparr>host_status := STATUS_IDLE, host_current := bzero_current\<rparr>
      else host s)"
  by (simp add: finish_job_def clear_joblist_def switch_status_def announce_once_def emit_def
        Let_def)

subsection \<open>An iteration that processes a job\<close>

lemma execute_job_ready:
  assumes "engOpen_ok e \<or> matlabRunning s \<noteq> 0 \<or> now_failed e \<noteq> 0"
  shows "peerid (execute_job e s) = Holds (host_id (job_host (hd (joblist s))))"
    and "jobid (execute_job e s) = Holds (def_id (job_job (hd (joblist s))))"
    and "argout (execute_job e s) \<noteq> Indeterminate"
    and "options (execute_job e s) \<noteq> Indeterminate"
proof -
  have "peerid (execute_job e s) = Holds (host_id (job_host (hd (joblist s))))
      \<and> jobid (execute_job e s) = Holds (def_id (job_job (hd (joblist s))))
      \<and> argout (execute_job e s) \<noteq> Indeterminate
      \<and> options (execute_job e s) \<noteq> Indeterminate"
  proof (cases "engOpen_ok e \<or> matlabRunning s \<noteq> 0")
    case True
    from execute_job_with_engine(3,4) [OF True] execute_job_results [OF True]
    show ?thesis by simp
  next
    case False
    with assms have "matlabRunning s = 0" "\<not> engOpen_ok e" "now_failed e \<noteq> 0"
      by simp_all
    from execute_job_no_engine(7,8,9,10) [OF this] show ?thesis by simp
  qed
  then show "peerid (execute_job e s) = Holds (host_id (job_host (hd (joblist s))))"
    and "jobid (execute_job e s) = Holds (def_id (job_job (hd (joblist s))))"
    and "argout (execute_job e s) \<noteq> Indeterminate"
    and "options (execute_job e s) \<noteq> Indeterminate"
    by simp_all
qed

lemma iteration_processes_job:
  assumes "joblist s \<noteq> []"
    and "\<not> zombie_timed_out e s"
    and "engOpen_ok e \<or> matlabRunning (engine_idle_check e s) \<noteq> 0 \<or> now_failed e \<noteq> 0"
    and "find_peer (peerlist e) (host_id (job_host (hd (joblist s)))) \<noteq> None
         \<or> (server s \<noteq> Indeterminate \<and> arg s \<noteq> Indeterminate \<and> opt s \<noteq> Indeterminate)"
  obtains s6 where "send_results e (execute_job e (engine_idle_check e s)) = Inr s6"
    and "slave_iteration e s = Inr (finish_job e s6)"
proof -
  let ?s5 = "execute_job e (engine_idle_check e s)"
  have "\<not> isl (send_results e ?s5)"
    using assms(4) execute_job_ready [OF assms(3)]
    by (intro send_results_returns [where pid = "host_id (job_host (hd (joblist s)))"]) simp_all
  then obtain s6 where s6: "send_results e ?s5 = Inr s6"
    by (cases "send_results e ?s5") simp_all
  moreover have "slave_iteration e s = Inr (finish_job e s6)"
    using assms(1,2) s6 by (simp add: slave_iteration_def Let_def jobcount_def)
  ultimately show ?thesis by (rule that)
qed

subsection \<open>The queue after a job\<close>

text \<open>
  C4, as amended. Each iteration that processes a job runs the result-send protocol
  for the first entry of the queue and then clears the whole queue: the entries behind
  the first one are removed with it.
\<close>

theorem iteration_clears_the_queue:
  assumes "joblist s \<noteq> []"
    and "\<not> zombie_timed_out e s"
    and "engOpen_ok e \<or> matlabRunning (engine_idle_check e s) \<noteq> 0 \<or> now_failed e \<noteq> 0"
    and "find_peer (peerlist e) (host_id (job_host (hd (joblist s)))) \<noteq> None
         \<or> (server s \<noteq> Indeterminate \<and> arg s \<noteq> Indeterminate \<and> opt s \<noteq> Indeterminate)"
  shows "\<exists>s5 s6. send_results e s5 = Inr s6
           \<and> jobid s5 = Holds (def_id (job_job (hd (joblist s))))
           \<and> peerid s5 = Holds (host_id (job_host (hd (joblist s))))
           \<and> joblist s5 = joblist s
           \<and> slave_iteration e s = Inr (finish_job e s6)
           \<and> joblist (finish_job e s6) = []"
proof -
  from assms obtain s6
    where "send_results e (execute_job e (engine_idle_check e s)) = Inr s6"
      and "slave_iteration e s = Inr (finish_job e s6)"
    by (rule iteration_processes_job)
  moreover note execute_job_ready(1,2) [OF assms(3)]
  ultimately show ?thesis
    by (intro exI [of _ "execute_job e (engine_idle_check e s)"] exI [of _ s6]) simp
qed

theorem iteration_clears_the_queue_witness:
  "\<exists>s5 s6. send_results good_env s5 = Inr s6 \<and> jobid s5 = Holds 7 \<and> peerid s5 = Holds 42
      \<and> joblist s5 = [job7, job8]
      \<and> slave_iteration good_env queue_of_two = Inr (finish_job good_env s6)
      \<and> joblist (finish_job good_env s6) = []"
proof -
  have a: "joblist queue_of_two \<noteq> []" "\<not> zombie_timed_out good_env queue_of_two"
      "engOpen_ok good_env \<or> matlabRunning (engine_idle_check good_env queue_of_two) \<noteq> 0
         \<or> now_failed good_env \<noteq> 0"
    by (simp_all add: queue_of_two_def initial_slave_def good_env_def zombie_timed_out_def)
  have b: "find_peer (peerlist good_env) (host_id (job_host (hd (joblist queue_of_two)))) \<noteq> None
         \<or> (server queue_of_two \<noteq> Indeterminate \<and> arg queue_of_two \<noteq> Indeterminate
              \<and> opt queue_of_two \<noteq> Indeterminate)"
    by (simp add: queue_of_two_def initial_slave_def good_env_def job7_def)
  have c: "def_id (job_job job7) = 7" "host_id (job_host job7) = 42"
      "joblist queue_of_two = [job7, job8]"
    by (simp_all add: queue_of_two_def initial_slave_def job7_def submitter_def)
  from iteration_clears_the_queue [OF a b] show ?thesis
    by (simp add: c)
qed

text \<open>
  C4 as stated fails: with two jobs queued, the iteration that processes the first
  leaves an empty queue, not the second job.
\<close>

theorem second_job_is_dropped:
  "\<not> isl (slave_iteration good_env queue_of_two)
   \<and> joblist (result_state (slave_iteration good_env queue_of_two)) = []
   \<and> tl (joblist queue_of_two) = [job8]"
  by code_simp


subsection \<open>A submitter that cannot be reached\<close>

lemma socket_event_simps [simp]:
  "is_socket_event (Lock m) = False"
  "is_socket_event (Unlock m) = False"
  "is_socket_event (Announce h) = False"
  "is_socket_event (EngOpen ok) = False"
  "is_socket_event EngClose = False"
  "is_socket_event (EngPutVariable name v) = False"
  "is_socket_event (EngEvalString str) = False"
  "is_socket_event (EngGetVariable name) = False"
  "is_socket_event (OpenUds path fd) = True"
  "is_socket_event (OpenTcp ip port fd) = True"
  "is_socket_event (BufRead fd hs) = True"
  "is_socket_event (BufWrite fd f full) = True"
  "is_socket_event (CloseConnection fd) = False"
  "is_socket_event DestroyArg = False"
  "is_socket_event DestroyOpt = False"
  "is_socket_event FreeDef = False"
  "is_socket_event ClearJoblist = False"
  "is_socket_event ThreadSleep = False"
  by (simp_all add: is_socket_event_def)

lemma engine_steps_no_socket:
  "filter is_socket_event (trace (engine_steps e s)) = filter is_socket_event (trace s)"
  by (simp add: engine_steps_def)

lemma execute_job_no_socket:
  "filter is_socket_event (trace (execute_job e s)) = filter is_socket_event (trace s)"
  by (simp add: execute_job_def Let_def engine_steps_no_socket)

lemma execute_job_host_name:
  "host_name (host (execute_job e s)) = host_name (host s)"
  by (simp add: execute_job_def Let_def start_engine_def switch_status_def announce_once_def
        pickup_job_def emit_def)

lemma send_results_unreachable:
  assumes "peerid s = Holds pid"
    and "find_peer (peerlist e) pid = Some p"
    and "\<not> (host_socket (peer_host p) \<noteq> [] \<and> host_name (peer_host p) = host_name (host s))"
    and "\<not> 0 < host_port (peer_host p)"
  shows "send_results e s =
           Inr (s\<lparr>server := Holds 0, jdef := None, arg := Holds None, opt := Holds None,
                  trace := trace s @ [Lock mutexpeerlist, Lock mutexhost, Unlock mutexhost,
                                      Unlock mutexpeerlist]\<rparr>)"
  using assms by (auto simp add: send_results_def cleanup_def emit_def Let_def)

lemma finish_job_outside:
  "outside_send (finish_job e s) = outside_send (finish_job e (outside_send s))"
  by (simp add: finish_job_def clear_joblist_def switch_status_def announce_once_def emit_def
        outside_send_def Let_def)

lemma with_network_fields [simp]:
  "now_idle (with_network n e) = now_idle e"
  "now_zombie (with_network n e) = now_zombie e"
  "now_failed (with_network n e) = now_failed e"
  "now_start (with_network n e) = now_start e"
  "now_finished (with_network n e) = now_finished e"
  "engOpen_ok (with_network n e) = engOpen_ok e"
  "mxDeserialize (with_network n e) = mxDeserialize e"
  "mxDeserialize_opt (with_network n e) = mxDeserialize_opt e"
  "engPut_argin_ok (with_network n e) = engPut_argin_ok e"
  "engPut_options_ok (with_network n e) = engPut_options_ok e"
  "engEval_ok (with_network n e) = engEval_ok e"
  "engGet_argout (with_network n e) = engGet_argout e"
  "engGet_options (with_network n e) = engGet_options e"
  by (simp_all add: with_network_def)

lemma network_only_steps:
  "put_argin (with_network n e) s = put_argin e s"
  "put_options (with_network n e) s = put_options e s"
  "eval_job (with_network n e) s = eval_job e s"
  "get_argout (with_network n e) s = get_argout e s"
  "get_options (with_network n e) s = get_options e s"
  by (simp_all add: put_argin_def put_options_def eval_job_def get_argout_def get_options_def)

lemma network_only_phases:
  "engine_idle_check (with_network n e) s = engine_idle_check e s"
  "zombie_timed_out (with_network n e) s = zombie_timed_out e s"
  "start_engine (with_network n e) s = start_engine e s"
  "pickup_job (with_network n e) s = pickup_job e s"
  "engine_steps (with_network n e) s = engine_steps e s"
  "finish_job (with_network n e) s = finish_job e s"
  by (simp_all add: engine_idle_check_def zombie_timed_out_def start_engine_def pickup_job_def
        engine_steps_def network_only_steps finish_job_def Let_def)

lemma network_only:
  "execute_job (with_network n e) s = execute_job e s"
  by (simp add: execute_job_def network_only_phases Let_def)

text \<open>
  C10. The submitter is in the peer table, but its descriptor has neither a socket
  path on this host nor a positive port: the iteration opens no connection and
  reads and writes no socket; the queue is cleared; if the engine did not fail to
  start, the slave ends idle with no current job and its last act is the announcement
  of that. Whatever the network answers in its place (another peer table, other
  answers of the sockets, of the serialisation and of \<^verbatim>\<open>malloc\<close>), an iteration
  that comes to its end ends in the same state, up to the working variables of the
  result-send protocol and the trace.
\<close>

theorem unreachable_submitter_is_skipped:
  assumes "joblist s \<noteq> []"
    and "\<not> zombie_timed_out e s"
    and "engOpen_ok e \<or> matlabRunning (engine_idle_check e s) \<noteq> 0 \<or> now_failed e \<noteq> 0"
    and "find_peer (peerlist e) (host_id (job_host (hd (joblist s)))) = Some p"
    and "\<not> (host_socket (peer_host p) \<noteq> [] \<and> host_name (peer_host p) = host_name (host s))"
    and "\<not> 0 < host_port (peer_host p)"
  shows "\<exists>s'. slave_iteration e s = Inr s'
           \<and> filter is_socket_event (trace s') = filter is_socket_event (trace s)
           \<and> joblist s' = []
           \<and> (engineFailed s' = 0 \<longrightarrow>
                host_status (host s') = STATUS_IDLE \<and> host_current (host s') = bzero_current
                \<and> last (trace s') = Announce (host s'))
           \<and> (\<forall>n s''. slave_iteration (with_network n e) s = Inr s''
                 \<longrightarrow> outside_send s'' = outside_send s')"
    (is "\<exists>s'. ?P s'")
proof -
  let ?s1 = "engine_idle_check e s"
  let ?s5 = "execute_job e ?s1"
  let ?s6 = "?s5\<lparr>server := Holds 0, jdef := None, arg := Holds None, opt := Holds None,
                  trace := trace ?s5 @ [Lock mutexpeerlist, Lock mutexhost, Unlock mutexhost,
                                        Unlock mutexpeerlist]\<rparr>"
  let ?s' = "finish_job e ?s6"
  have s6: "send_results e ?s5 = Inr ?s6"
    using assms(4,5,6) execute_job_ready(1) [OF assms(3)]
    by (intro send_results_unreachable [where p = p]) (simp_all add: execute_job_host_name)
  have it: "slave_iteration e s = Inr ?s'"
    using assms(1,2) s6 by (simp add: slave_iteration_def Let_def jobcount_def)
  have sock: "filter is_socket_event (trace ?s') = filter is_socket_event (trace s)"
    by (simp add: finish_job_trace execute_job_no_socket)
  have idle: "host_status (host ?s') = STATUS_IDLE \<and> host_current (host ?s') = bzero_current
                \<and> last (trace ?s') = Announce (host ?s')"
    if "engineFailed ?s' = 0"
    using that by (simp add: finish_job_trace finish_job_host)
  have same: "outside_send s'' = outside_send ?s'"
    if run: "slave_iteration (with_network n e) s = Inr s''" for n s''
  proof -
    let ?e' = "with_network n e"
    from run assms(1,2) obtain t where t: "send_results ?e' ?s5 = Inr t"
      and s'': "s'' = finish_job e t"
      by (auto simp add: slave_iteration_def Let_def jobcount_def network_only
            network_only_phases split: sum.splits)
    have "outside_send t = outside_send ?s5"
      using send_results_outside [of ?e' ?s5] t by simp
    also have "\<dots> = outside_send ?s6"
      by (simp add: outside_send_def)
    finally have "outside_send (finish_job e (outside_send t))
                    = outside_send (finish_job e (outside_send ?s6))"
      by simp
    then show ?thesis
      unfolding s'' by (simp only: finish_job_outside [symmetric])
  qed
  have "?P ?s'"
    using it sock idle same by (intro conjI allI impI) (simp_all del: outside_send_simps)
  then show ?thesis by blast
qed


text \<open>
  The first job of a fresh slave whose submitter has port 0 and no socket path, next
  to the same job with the submitter reachable.
\<close>

theorem unreachable_submitter_is_skipped_witness:
  "\<exists>s' s''. slave_iteration unreachable_submitter idle_slave = Inr s'
     \<and> filter is_socket_event (trace s') = []
     \<and> joblist s' = []
     \<and> host_status (host s') = STATUS_IDLE \<and> host_current (host s') = bzero_current
     \<and> last (trace s') = Announce (host s')
     \<and> slave_iteration good_env idle_slave = Inr s''
     \<and> outside_send s'' = outside_send s'"
proof -
  let ?p = "\<lparr>peer_host = submitter\<lparr>host_port := 0\<rparr>, peer_ipaddr = ''10.0.0.42''\<rparr>"
  have a: "joblist idle_slave \<noteq> []" "\<not> zombie_timed_out unreachable_submitter idle_slave"
      "engOpen_ok unreachable_submitter
         \<or> matlabRunning (engine_idle_check unreachable_submitter idle_slave) \<noteq> 0
         \<or> now_failed unreachable_submitter \<noteq> 0"
    by (simp_all add: idle_slave_def initial_slave_def unreachable_submitter_def good_env_def
          zombie_timed_out_def)
  have b: "find_peer (peerlist unreachable_submitter)
             (host_id (job_host (hd (joblist idle_slave)))) = Some ?p"
      "\<not> (host_socket (peer_host ?p) \<noteq> []
           \<and> host_name (peer_host ?p) = host_name (host idle_slave))"
      "\<not> 0 < host_port (peer_host ?p)"
    by (simp_all add: idle_slave_def initial_slave_def unreachable_submitter_def good_env_def
          job7_def submitter_def)
  have n: "with_network good_env unreachable_submitter = good_env"
    by (simp add: with_network_def unreachable_submitter_def good_env_def)
  have r: "\<not> isl (slave_iteration good_env idle_slave)"
    by code_simp
  then obtain s'' where s'': "slave_iteration good_env idle_slave = Inr s''"
    by (cases "slave_iteration good_env idle_slave") simp_all
  have f: "engineFailed (result_state (slave_iteration unreachable_submitter idle_slave)) = 0"
      "trace idle_slave = []"
    by code_simp+
  from unreachable_submitter_is_skipped [OF a b] obtain s'
    where 1: "slave_iteration unreachable_submitter idle_slave = Inr s'"
      "filter is_socket_event (trace s') = filter is_socket_event (trace idle_slave)"
      "joblist s' = []"
      "engineFailed s' = 0 \<longrightarrow>
         host_status (host s') = STATUS_IDLE \<and> host_current (host s') = bzero_current
         \<and> last (trace s') = Announce (host s')"
      "\<And>n s''. slave_iteration (with_network n unreachable_submitter) idle_slave = Inr s''
          \<Longrightarrow> outside_send s'' = outside_send s'"
    by blast
  from 1(5) [of good_env s''] n s'' have 2: "outside_send s'' = outside_send s'"
    by simp
  from f 1(1) have "engineFailed s' = 0" by simp
  with 1 2 s'' f(2) show ?thesis by auto
qed


subsection \<open>The cleanup\<close>

lemma cleanup_releases:
  "case cleanup s of
     Inl f \<Rightarrow> True
   | Inr s' \<Rightarrow> arg s' = Holds None \<and> opt s' = Holds None \<and> jdef s' = None
               \<and> (\<exists>fd. server s' = Holds fd \<and> fd \<le> 0)"
  by (simp add: cleanup_def Let_def split: cvar.split)

lemma exchange_releases:
  "case exchange e fd s of
     Inl f \<Rightarrow> True
   | Inr s' \<Rightarrow> arg s' = Holds None \<and> opt s' = Holds None \<and> jdef s' = None
               \<and> (\<exists>fd. server s' = Holds fd \<and> fd \<le> 0)"
  by (simp add: exchange_def Let_def cleanup_releases split: cvar.split option.split)

text \<open>
  Wherever the result-send protocol comes to its end, the descriptor is closed or was
  never open, and the buffers and the job definition are freed.
\<close>

lemma send_results_releases:
  "case send_results e s of
     Inl f \<Rightarrow> True
   | Inr s' \<Rightarrow> arg s' = Holds None \<and> opt s' = Holds None \<and> jdef s' = None
               \<and> (\<exists>fd. server s' = Holds fd \<and> fd \<le> 0)"
  by (simp add: send_results_def Let_def cleanup_releases exchange_releases
        split: cvar.split option.split)

text \<open>
  C6 fails on the code. The first job of a fresh slave whose submitter is not in the
  peer table: line 753 jumps to the cleanup, which tests \<^verbatim>\<open>server\<close> before any
  value was assigned to it (lines 762-765 come after the jump).
\<close>

theorem cleanup_reads_unassigned_server:
  "isl (slave_iteration submitter_gone idle_slave)
   \<and> fst (projl (slave_iteration submitter_gone idle_slave)) = ReadIndeterminate ''server''"
  by code_simp

subsection \<open>Short writes and failed handshakes\<close>

lemma send_traces [simp]:
  "trace (bufwrite_if e fd k f s) =
     trace s @ (if success s then [BufWrite fd f (bufwrite_full e k)] else [])"
  "success (bufwrite_if e fd k f s) = (success s \<and> bufwrite_full e k)"
  "trace (bufread_handshake e fd k s) = trace s @ [BufRead fd (handshake e k)]"
  by (simp_all add: bufwrite_if_def bufread_handshake_def)

lemma quiet_after_append:
  "quiet_after T B (xs @ ys) =
     (quiet_after T B xs \<and> (list_ex T xs \<longrightarrow> list_all (\<lambda>x. \<not> B x) ys) \<and> quiet_after T B ys)"
  by (induction xs) auto




lemma cleanup_quiet [simp]:
  "quiet_after T is_bufwrite (trace (result_state (cleanup s))) = quiet_after T is_bufwrite (trace s)"
  "quiet_after T is_socket_event (trace (result_state (cleanup s)))
     = quiet_after T is_socket_event (trace s)"
  by (simp_all add: cleanup_def Let_def quiet_after_append split: cvar.split)








subsection \<open>The mutexes\<close>

lemma held_at_simps [simp]:
  "held_at [] = []"
  "held_at (xs @ ys) = foldl held_after (held_at xs) ys"
  by (simp_all add: held_at_def)



















subsection \<open>The supervisor\<close>








lemma supervise_Cons:
  "supervision_state (supervise (w # ws) s) =
     (case supervise_step w s of
        Supervising s' \<Rightarrow> supervision_state (supervise ws s')
      | Child s' \<Rightarrow> s' | ForkFailed s' \<Rightarrow> s')"
  by (simp split: supervision.split)







subsection \<open>The command line\<close>







end
